theory Spec2Isabelle
  imports Main
begin

section \<open>Go strings and the standard-library functions the program calls\<close>

text \<open>
  The program is the terminal UI of \<^verbatim>\<open>main.go\<close>: a state (\<^verbatim>\<open>model\<close>), a function
  \<^verbatim>\<open>Update\<close> from a message to a new state and a command, and commands that act on tmux
  and git and answer with a message.

  A Go \<^verbatim>\<open>string\<close> is a sequence of bytes; \<^verbatim>\<open>len\<close>, indexing and slicing count
  bytes. It is modelled as \<^typ>\<open>string\<close> (a list of 8-bit characters). A \<^verbatim>\<open>rune\<close> is a
  Unicode code point; keyboard input delivers non-negative code points, modelled as
  \<^typ>\<open>nat\<close>.

  Go's \<^verbatim>\<open>int\<close> is 64 bits wide on the platform the program supports, and its arithmetic
  wraps around. Lengths of strings and slices, and the indices and loop counters the
  program keeps within them, stay below \<open>2^63\<close> because the object they measure is in
  memory; they are modelled as \<^typ>\<open>nat\<close>, or as \<^typ>\<open>int\<close> where the program tests the
  sign. The counts of the Selection Table are not bounded by any object: they are
  \<^typ>\<open>int\<close> with the wrap-around written out (\<open>wrapInt\<close>).
\<close>

type_synonym rune = nat

text \<open>
  \<^verbatim>\<open>string(runes)\<close>: the UTF-8 encoding of the code points. A surrogate or a value past
  U+10FFFF is encoded as U+FFFD (bytes EF BF BD).
\<close>

definition encodeRune :: "rune \<Rightarrow> string" where
  "encodeRune r =
     (if r < 0x80 then [char_of r]
      else if r < 0x800 then [char_of (0xC0 + r div 64), char_of (0x80 + r mod 64)]
      else if 0x10FFFF < r \<or> (0xD800 \<le> r \<and> r \<le> 0xDFFF)
        then [CHR 0xEF, CHR 0xBF, CHR 0xBD]
      else if r < 0x10000
        then [char_of (0xE0 + r div 4096), char_of (0x80 + (r div 64) mod 64),
              char_of (0x80 + r mod 64)]
      else [char_of (0xF0 + r div 262144), char_of (0x80 + (r div 4096) mod 64),
            char_of (0x80 + (r div 64) mod 64), char_of (0x80 + r mod 64)])"

definition stringOfRunes :: "rune list \<Rightarrow> string" where
  "stringOfRunes rs = concat (map encodeRune rs)"

text \<open>
  \<^verbatim>\<open>strings.TrimSpace\<close> removes leading and trailing white space as Unicode defines it
  (\<^verbatim>\<open>unicode.IsSpace\<close>). On bytes: the six ASCII spaces, the two-byte encodings of U+0085
  and U+00A0, and the three-byte encodings of U+1680, U+2000 to U+200A, U+2028, U+2029,
  U+202F, U+205F and U+3000. A byte sequence that is not one of these encodings decodes
  to a rune that is not a space, so the trimming stops there.
\<close>

definition asciiSpace :: "char \<Rightarrow> bool" where
  "asciiSpace c \<longleftrightarrow>
     c = CHR 0x09 \<or> c = CHR 0x0A \<or> c = CHR 0x0B \<or> c = CHR 0x0C \<or> c = CHR 0x0D \<or> c = CHR 0x20"

definition space2 :: "char \<Rightarrow> char \<Rightarrow> bool" where
  "space2 a b \<longleftrightarrow> a = CHR 0xC2 \<and> (b = CHR 0x85 \<or> b = CHR 0xA0)"

definition space3 :: "char \<Rightarrow> char \<Rightarrow> char \<Rightarrow> bool" where
  "space3 a b c \<longleftrightarrow>
     (a = CHR 0xE1 \<and> b = CHR 0x9A \<and> c = CHR 0x80) \<or>
     (a = CHR 0xE2 \<and> b = CHR 0x80 \<and>
        (((0x80::nat) \<le> of_char c \<and> of_char c \<le> (0x8A::nat)) \<or>
         c = CHR 0xA8 \<or> c = CHR 0xA9 \<or> c = CHR 0xAF)) \<or>
     (a = CHR 0xE2 \<and> b = CHR 0x81 \<and> c = CHR 0x9F) \<or>
     (a = CHR 0xE3 \<and> b = CHR 0x80 \<and> c = CHR 0x80)"

fun trimLeftSpace :: "string \<Rightarrow> string" where
  "trimLeftSpace (a # b # c # s) =
     (if asciiSpace a then trimLeftSpace (b # c # s)
      else if space2 a b then trimLeftSpace (c # s)
      else if space3 a b c then trimLeftSpace s
      else a # b # c # s)"
| "trimLeftSpace [a, b] =
     (if asciiSpace a then trimLeftSpace [b] else if space2 a b then [] else [a, b])"
| "trimLeftSpace [a] = (if asciiSpace a then [] else [a])"
| "trimLeftSpace [] = []"

text \<open>The same scan over the reversed string: the last byte comes first.\<close>

fun trimRevSpace :: "string \<Rightarrow> string" where
  "trimRevSpace (c # b # a # s) =
     (if asciiSpace c then trimRevSpace (b # a # s)
      else if space2 b c then trimRevSpace (a # s)
      else if space3 a b c then trimRevSpace s
      else c # b # a # s)"
| "trimRevSpace [c, b] =
     (if asciiSpace c then trimRevSpace [b] else if space2 b c then [] else [c, b])"
| "trimRevSpace [c] = (if asciiSpace c then [] else [c])"
| "trimRevSpace [] = []"

definition TrimSpace :: "string \<Rightarrow> string" where
  "TrimSpace s = rev (trimRevSpace (rev (trimLeftSpace s)))"

text \<open>\<^verbatim>\<open>strings.Join(elems, sep)\<close>.\<close>

fun Join :: "string list \<Rightarrow> string \<Rightarrow> string" where
  "Join [] sep = []"
| "Join [x] sep = x"
| "Join (x # y # r) sep = x @ sep @ Join (y # r) sep"

text \<open>\<^verbatim>\<open>strings.HasPrefix(s, prefix)\<close> and \<^verbatim>\<open>strings.TrimPrefix(s, prefix)\<close>.\<close>

definition HasPrefix :: "string \<Rightarrow> string \<Rightarrow> bool" where
  "HasPrefix s p \<longleftrightarrow> length p \<le> length s \<and> take (length p) s = p"

definition TrimPrefix :: "string \<Rightarrow> string \<Rightarrow> string" where
  "TrimPrefix s p = (if HasPrefix s p then drop (length p) s else s)"

text \<open>
  \<^verbatim>\<open>strings.SplitN(s, " ", 2)\<close>, the only way the program calls \<^verbatim>\<open>SplitN\<close>: the text
  before the first space and the text after it, or the whole string when it has no space.
\<close>

definition SplitN2 :: "string \<Rightarrow> string list" where
  "SplitN2 s =
     (if CHR '' '' \<in> set s
      then [takeWhile (\<lambda>c. c \<noteq> CHR '' '') s, drop 1 (dropWhile (\<lambda>c. c \<noteq> CHR '' '') s)]
      else [s])"

text \<open>\<^verbatim>\<open>%d\<close> of a positive number: its decimal digits.\<close>

fun itoa :: "nat \<Rightarrow> string" where
  "itoa n = (if n < 10 then [char_of (48 + n)] else itoa (n div 10) @ [char_of (48 + n mod 10)])"

declare itoa.simps [simp del]

section \<open>History Store: \<^verbatim>\<open>pushHistorySlice\<close>\<close>

definition historyMax :: nat where
  "historyMax = 20"

text \<open>
  \<^verbatim>\<open>pushHistorySlice(h, entry)\<close> (main.go, lines 195 to 208): trim the entry; return
  \<^verbatim>\<open>h\<close> when the entry is empty or equals \<^verbatim>\<open>h[0]\<close>; otherwise prepend and cut to
  \<^verbatim>\<open>historyMax\<close>.
\<close>

definition pushHistorySlice :: "string list \<Rightarrow> string \<Rightarrow> string list" where
  "pushHistorySlice h entry0 =
     (let entry = TrimSpace entry0 in
      if entry = [] then h
      else if length h > 0 \<and> h ! 0 = entry then h
      else (let newH = [entry] @ h in
            if length newH > historyMax then take historyMax newH else newH))"

text \<open>
  For stating what trimming does without the trimming function: the common blank
  characters (space, tab, line feed, carriage return), and the printable characters of
  ASCII other than the space.
\<close>

definition blank :: "char \<Rightarrow> bool" where
  "blank c \<longleftrightarrow> c = CHR 0x20 \<or> c = CHR 0x09 \<or> c = CHR 0x0A \<or> c = CHR 0x0D"

definition printable :: "char \<Rightarrow> bool" where
  "printable c \<longleftrightarrow> (0x21::nat) \<le> of_char c \<and> of_char c \<le> (0x7E::nat)"

text \<open>The History Store's push as the specification words it.\<close>

definition History_push_spec :: "string list \<Rightarrow> string \<Rightarrow> string list" where
  "History_push_spec h e =
     (let t = TrimSpace e in
      if t = [] \<or> (h \<noteq> [] \<and> hd h = t) then h else take 20 (t # h))"

section \<open>The session state (\<^verbatim>\<open>type model struct\<close>)\<close>

datatype focusType = focusBranch | focusTask | focusPrompt | focusProvider | focusModels

datatype screenType = screenSetup | screenIteration | screenProgress | screenNewTask

text \<open>The anonymous \<^verbatim>\<open>struct { row int; col int }\<close> of the three multi-line fields.\<close>

record cursorPos =
  row :: nat
  col :: nat

text \<open>
  The fields of \<^verbatim>\<open>model\<close> that the modelled code reads or writes. A Go map is a partial
  function; a nil slice and an empty slice are both \<open>[]\<close>; a nil \<^verbatim>\<open>[]string\<close> that the
  code tests against nil is an \<open>option\<close>. Left out: the window size, the blink and
  spinner state, \<^verbatim>\<open>runCmd\<close>, and the fields only the unmodelled keys touch
  (\<^verbatim>\<open>pendingEsc\<close>, \<^verbatim>\<open>historyIndex\<close>, \<^verbatim>\<open>draftInput\<close>).
\<close>

record model =
  input :: "string list"
  cursor :: cursorPos
  branch :: string
  branchCursor :: nat
  task :: string
  taskCursor :: nat
  providers :: "string list"
  providerIndex :: nat
  providerOpen :: bool
  providerHover :: nat
  models :: "string \<rightharpoonup> string list"
  selected :: "string \<rightharpoonup> (string \<rightharpoonup> int)"
  modelsOpen :: bool
  modelsHover :: int
  focus :: focusType
  screen :: screenType
  iterationInput :: "string list"
  iterationCursor :: cursorPos
  autocompleteOptions :: "string list"
  autocompleteIndex :: nat
  autocompleteActive :: bool
  createdPanes :: "string list"
  createdWorktrees :: "string list"
  modelToPaneID :: "string \<rightharpoonup> string"
  modelToWorktree :: "string \<rightharpoonup> string"
  modelPrompts :: "string \<rightharpoonup> string list"
  instanceProvider :: "string \<rightharpoonup> string"
  instanceBaseModel :: "string \<rightharpoonup> string"
  newTaskName :: string
  newTaskNameCursor :: nat
  newTaskPrompt :: "string list"
  newTaskCursor :: cursorPos
  newTaskFocus :: focusType
  setDefault :: bool
  progressMsg :: string
  history :: "string list"
  iterationHistoryIndex :: int
  draftIterationInput :: "string list option"

text \<open>Reading a Go map at a key it does not hold gives the zero value.\<close>

definition listAt :: "(string \<rightharpoonup> string list) \<Rightarrow> string \<Rightarrow> string list" where
  "listAt mp k = (case mp k of None \<Rightarrow> [] | Some v \<Rightarrow> v)"

definition stringAt :: "(string \<rightharpoonup> string) \<Rightarrow> string \<Rightarrow> string" where
  "stringAt mp k = (case mp k of None \<Rightarrow> [] | Some v \<Rightarrow> v)"

definition countAt :: "(string \<rightharpoonup> int) \<Rightarrow> string \<Rightarrow> int" where
  "countAt sel name = (case sel name of None \<Rightarrow> 0 | Some c \<Rightarrow> c)"

text \<open>
  The result of an arithmetic operation on Go's 64-bit \<^verbatim>\<open>int\<close>: the mathematical result
  reduced into the range from \<open>-2^63\<close> to \<open>2^63 - 1\<close>.
\<close>

definition wrapInt :: "int \<Rightarrow> int" where
  "wrapInt x = (x + 2 ^ 63) mod 2 ^ 64 - 2 ^ 63"

text \<open>
  Every function below that indexes a slice or a string returns an \<open>option\<close>: \<open>None\<close> is
  the Go runtime panic (index or slice bounds out of range).

  \<^verbatim>\<open>currentProvider\<close> (lines 495 to 500) and \<^verbatim>\<open>providerModels\<close> (lines 502 to 508).
\<close>

definition currentProvider :: "model \<Rightarrow> string option" where
  "currentProvider m =
     (if length (providers m) = 0 then Some []
      else if providerIndex m < length (providers m) then Some (providers m ! providerIndex m)
      else None)"

definition providerModels :: "model \<Rightarrow> string list option" where
  "providerModels m =
     (case currentProvider m of
        None \<Rightarrow> None
      | Some p \<Rightarrow> if p = [] then Some [] else Some (listAt (models m) p))"

text \<open>\<^verbatim>\<open>selectedModels\<close> (lines 2748 to 2763): each selected name, as often as its count.\<close>

primrec selectedLoop :: "(string \<rightharpoonup> int) \<Rightarrow> string list \<Rightarrow> string list" where
  "selectedLoop sel [] = []"
| "selectedLoop sel (name # names) =
     (case sel name of
        Some c \<Rightarrow> if c > 0 then replicate (nat c) name else []
      | None \<Rightarrow> []) @ selectedLoop sel names"

definition selectedModels :: "model \<Rightarrow> string list option" where
  "selectedModels m =
     (case currentProvider m of
        None \<Rightarrow> None
      | Some p \<Rightarrow>
          (case selected m p of
             None \<Rightarrow> Some []
           | Some sel \<Rightarrow> Some (selectedLoop sel (listAt (models m) p))))"

section \<open>Line Buffer: the editing blocks of \<^verbatim>\<open>Update\<close>\<close>

text \<open>
  The program repeats the same editing statements for the prompt, the iteration command
  and the new-task prompt. Each block is one function here, over the rows and the cursor.

  Insert a string at the cursor (lines 1114 to 1116, 873 to 875, 1372 to 1374):
  \<^verbatim>\<open>line := rows[row]; rows[row] = line[:col] + r + line[col:]; col += len(r)\<close>.
\<close>

definition insertText :: "string \<Rightarrow> string list \<times> cursorPos \<Rightarrow> (string list \<times> cursorPos) option" where
  "insertText r b =
     (case b of (rows, cur) \<Rightarrow>
        if row cur < length rows \<and> col cur \<le> length (rows ! row cur)
        then (let line = rows ! row cur in
              Some (rows[row cur := take (col cur) line @ r @ drop (col cur) line],
                    cur\<lparr>col := col cur + length r\<rparr>))
        else None)"

text \<open>
  Backspace (lines 943 to 954, 1226 to 1229 with 1250 to 1258, 1482 to 1493): delete the
  byte left of the cursor, or at column 0 of a later row join the row to the one above.
\<close>

definition backspaceChar :: "string list \<times> cursorPos \<Rightarrow> (string list \<times> cursorPos) option" where
  "backspaceChar b =
     (case b of (rows, cur) \<Rightarrow>
        if col cur > 0 then
          (if row cur < length rows \<and> col cur \<le> length (rows ! row cur)
           then (let line = rows ! row cur in
                 Some (rows[row cur := take (col cur - 1) line @ drop (col cur) line],
                       cur\<lparr>col := col cur - 1\<rparr>))
           else None)
        else if row cur > 0 then
          (if row cur < length rows
           then (let prev = rows ! (row cur - 1); cur_line = rows ! row cur;
                     rows1 = rows[row cur - 1 := prev @ cur_line] in
                 Some (take (row cur) rows1 @ drop (row cur + 1) rows1,
                       \<lparr>row = row cur - 1, col = length prev\<rparr>))
           else None)
        else Some b)"

text \<open>
  Split the row at the cursor (lines 825 to 830, 1210 to 1215, 1457 to 1462); \<open>beforeCur\<close>
  and \<open>afterCur\<close> are the source's \<^verbatim>\<open>before\<close> and \<^verbatim>\<open>after\<close>.
\<close>

definition insertNewline :: "string list \<times> cursorPos \<Rightarrow> (string list \<times> cursorPos) option" where
  "insertNewline b =
     (case b of (rows, cur) \<Rightarrow>
        if row cur < length rows \<and> col cur \<le> length (rows ! row cur)
        then (let beforeCur = take (col cur) (rows ! row cur);
                  afterCur = drop (col cur) (rows ! row cur);
                  rows1 = rows[row cur := beforeCur] in
              Some (take (row cur + 1) rows1 @ [afterCur] @ drop (row cur + 1) rows1,
                    \<lparr>row = row cur + 1, col = 0\<rparr>))
        else None)"

text \<open>
  The single-line fields (branch, task, new-task name): insert at the cursor
  (\<^verbatim>\<open>s[:c] + r + s[c:]\<close>, lines 863, 1101), and backspace (lines 898 to 901).
\<close>

definition insertField :: "string \<Rightarrow> string \<times> nat \<Rightarrow> (string \<times> nat) option" where
  "insertField r f =
     (case f of (s, c) \<Rightarrow>
        if c \<le> length s then Some (take c s @ r @ drop c s, c + length r) else None)"

definition backspaceField :: "string \<times> nat \<Rightarrow> (string \<times> nat) option" where
  "backspaceField f =
     (case f of (s, c) \<Rightarrow>
        if c > 0 \<and> length s > 0
        then (if c \<le> length s then Some (take (c - 1) s @ drop c s, c - 1) else None)
        else Some f)"

section \<open>Autocomplete Engine\<close>

definition isWS :: "char \<Rightarrow> bool" where
  "isWS c \<longleftrightarrow> c = CHR '' '' \<or> c = CHR 0x09 \<or> c = CHR 0x0A"

definition isSigil :: "char \<Rightarrow> bool" where
  "isSigil c \<longleftrightarrow> c = CHR ''/'' \<or> c = CHR ''@''"

text \<open>
  The backward scans of \<^verbatim>\<open>getAutocompletePrefix\<close>.
  \<open>tokenStart line i\<close>: \<^verbatim>\<open>for i > 0 && line[i-1] is not white space { i-- }\<close>.
  \<open>skipSpacesBack line e\<close>, with \<open>e = prevEnd + 1\<close>:
  \<^verbatim>\<open>for prevEnd >= 0 && line[prevEnd] is white space { prevEnd-- }\<close>.
  \<open>scanForSigil line s\<close>, with \<open>s = start + 1\<close>: the last loop, which returns at the first
  \<^verbatim>\<open>/\<close> or \<^verbatim>\<open>@\<close> and gives up at white space or at the start of the line.
\<close>

fun tokenStart :: "string \<Rightarrow> nat \<Rightarrow> nat" where
  "tokenStart line 0 = 0"
| "tokenStart line (Suc i) = (if isWS (line ! i) then Suc i else tokenStart line i)"

fun skipSpacesBack :: "string \<Rightarrow> nat \<Rightarrow> nat" where
  "skipSpacesBack line 0 = 0"
| "skipSpacesBack line (Suc i) = (if isWS (line ! i) then skipSpacesBack line i else Suc i)"

fun scanForSigil :: "string \<Rightarrow> nat \<Rightarrow> nat option" where
  "scanForSigil line 0 = None"
| "scanForSigil line (Suc i) =
     (if isWS (line ! i) then None
      else if isSigil (line ! i) then Some i
      else scanForSigil line i)"

text \<open>\<^verbatim>\<open>line[a:b]\<close> for \<open>a \<le> b \<le> len(line)\<close>.\<close>

definition slice :: "string \<Rightarrow> nat \<Rightarrow> nat \<Rightarrow> string" where
  "slice line a b = take (b - a) (drop a line)"

text \<open>\<^verbatim>\<open>getAutocompletePrefix\<close> (lines 2765 to 2822).\<close>

definition getAutocompletePrefix :: "string \<Rightarrow> nat \<Rightarrow> string \<times> nat" where
  "getAutocompletePrefix line cursorPos0 =
     (let cursorPos = (if cursorPos0 > length line then length line else cursorPos0);
          curStart = tokenStart line cursorPos;
          currentToken = slice line curStart cursorPos;
          prevEnd1 = skipSpacesBack line curStart;
          prevStart = tokenStart line (prevEnd1 - 1);
          prevToken = slice line prevStart prevEnd1
      in
      if prevEnd1 > 0 \<and> length prevToken > 0 \<and> isSigil (prevToken ! 0)
      then (prevToken @ '' '' @ currentToken, curStart)
      else if cursorPos = 0 then ([], 0)
      else if isSigil (line ! (cursorPos - 1))
      then (let start = tokenStart line (cursorPos - 1) in (slice line start cursorPos, start))
      else (case scanForSigil line cursorPos of
              Some start \<Rightarrow> (slice line start cursorPos, start)
            | None \<Rightarrow> ([], 0)))"

text \<open>
  \<^verbatim>\<open>getAutocompleteOptions\<close> (lines 2824 to 2895). Go visits the keys of a map in an
  order the runtime chooses at each \<^verbatim>\<open>range\<close>; the order in which this call visits the
  keys of \<^verbatim>\<open>modelToWorktree\<close> is the parameter \<open>ks\<close> (every key once).
\<close>

definition getAutocompleteOptions :: "string list \<Rightarrow> model \<Rightarrow> string \<Rightarrow> string list option" where
  "getAutocompleteOptions ks m prefix =
     (if length prefix = 0 then Some []
      else if prefix ! 0 = CHR ''/'' then
        (if HasPrefix prefix ''/next '' \<or> HasPrefix prefix ''/wrap '' then
           (let searchPrefix =
                  (if length prefix > 6
                   then (let parts = SplitN2 prefix in
                         if length parts = 2 then parts ! 1 else [])
                   else [])
            in case (if length ks = 0 then selectedModels m else Some ks) of
                 None \<Rightarrow> None
               | Some candidates \<Rightarrow> Some (filter (\<lambda>c. HasPrefix c searchPrefix) candidates))
         else Some (filter (\<lambda>c. HasPrefix c prefix) [''/bail'', ''/next'', ''/wrap'']))
      else if prefix ! 0 = CHR ''@'' then
        (case (if length ks = 0 then selectedModels m else Some ks) of
           None \<Rightarrow> None
         | Some candidates \<Rightarrow>
             Some (map (\<lambda>name. ''@'' @ name)
                     (filter (\<lambda>name. HasPrefix name (drop 1 prefix)) candidates)))
      else Some [])"

text \<open>
  The block that recomputes the popup after an edit (lines 1231 to 1249, and again 1383 to
  1401), on the row under the cursor.
\<close>

definition refreshAutocomplete :: "string list \<Rightarrow> model \<Rightarrow> model option" where
  "refreshAutocomplete ks m =
     (if row (iterationCursor m) < length (iterationInput m) then
        (let line = iterationInput m ! row (iterationCursor m);
             prefix = fst (getAutocompletePrefix line (col (iterationCursor m)))
         in
         if prefix \<noteq> [] \<and> isSigil (prefix ! 0) then
           (case getAutocompleteOptions ks m prefix of
              None \<Rightarrow> None
            | Some opts \<Rightarrow>
                if length opts > 0 then
                  (if length opts = 1 \<and> opts ! 0 = prefix
                   then Some (m\<lparr>autocompleteOptions := [], autocompleteActive := False\<rparr>)
                   else Some (m\<lparr>autocompleteOptions := opts, autocompleteActive := True,
                                autocompleteIndex := 0\<rparr>))
                else Some (m\<lparr>autocompleteOptions := opts, autocompleteActive := False\<rparr>))
         else Some (m\<lparr>autocompleteActive := False, autocompleteOptions := []\<rparr>))
      else None)"

section \<open>Messages and commands\<close>

text \<open>
  The keys whose handlers are modelled, pressed without the Alt modifier: Enter, Space,
  Backspace, and text input (the \<^verbatim>\<open>default\<close> case, which reads \<^verbatim>\<open>msg.Runes\<close>). With
  these keys \<^verbatim>\<open>pendingEsc\<close> is never set, so the Alt/Esc word motions do not arise.
\<close>

datatype keyType = KeyEnter | KeySpace | KeyBackspace | KeyRunes

record keyMsg =
  Type :: keyType
  Runes :: "rune list"

datatype error = errNotInsideTmux | errBranchRequired | errTmux

text \<open>\<^verbatim>\<open>panesOpenedMsg\<close> (lines 1599 to 1607).\<close>

record panesOpenedMsg =
  count :: int
  err :: "error option"
  paneIDs :: "string list"
  worktrees :: "string list"
  modelNames :: "string list"
  providersOpened :: "string list"
  baseModels :: "string list"

datatype msg =
    bailCompleteMsg
  | nextCompleteMsg
  | wrapCompleteMsg
  | cleanupCompleteMsg
  | PanesOpened panesOpenedMsg
  | KeyMsg keyMsg

text \<open>
  A \<^verbatim>\<open>tea.Cmd\<close> is a closure over the arguments of the function that built it; the
  constructor keeps those arguments, and \<open>runCmd\<close> below is the closure's body.
  \<^verbatim>\<open>tea.Quit\<close> ends the program.
\<close>

datatype cmd =
    Quit
  | openPanesCmd "string list" model
  | bailCmd model
  | nextCmd model string
  | wrapCmd model string
  | sendToModelPaneCmd string string string model

section \<open>The outside world of the commands\<close>

text \<open>
  What a command does to tmux, git and the defaults file, in order. The text of a status
  message is not modelled.
\<close>

datatype effect =
    SaveDefaults string
  | DisplayMessage
  | GitCheckoutNew string
  | GitCheckout string
  | QueryPane
  | SplitWindow string string string string
  | SelectLayoutTiled
  | SelectPane string
  | KillPane string
  | GitWorktreeRemove string string
  | GitBranchDelete string
  | IncrementChoice string string
  | GitAdd string string
  | GitCommit string string string
  | GitMerge string string
  | GitPush string
  | SendInterrupt string
  | SendCommand string string string

text \<open>
  How the outside answers: whether the process runs inside tmux, the working directory
  (\<open>None\<close> when \<^verbatim>\<open>os.Getwd\<close> fails, else its parent directory and its base name), the
  pane id tmux reports, the output of the k-th \<^verbatim>\<open>split-window\<close> of a launch (\<open>None\<close> when
  it fails), and whether each git step succeeds.
\<close>

record world =
  insideTmux :: bool
  getwd :: "(string \<times> string) option"
  saveDefaultsOK :: bool
  incrementChoiceOK :: bool
  paneQuery :: "string option"
  splitWindow :: "nat \<Rightarrow> string option"
  gitAddOK :: bool
  gitCommitOK :: bool
  gitCheckoutOK :: bool
  gitMergeOK :: bool
  gitPushOK :: bool

text \<open>\<^verbatim>\<open>identifierFor\<close> (lines 247 to 270): the non-empty parts, joined by an underscore.\<close>

definition identifierFor :: "world \<Rightarrow> model \<Rightarrow> string \<Rightarrow> string" where
  "identifierFor w m modelName =
     (let repo = (case getwd w of None \<Rightarrow> [] | Some (dir, base) \<Rightarrow> base)
      in Join (filter (\<lambda>p. p \<noteq> [])
                 [repo, TrimSpace (branch m), TrimSpace (task m), TrimSpace modelName]) ''_'')"

section \<open>Launch: \<^verbatim>\<open>openPanesCmd\<close> (lines 1621 to 1711)\<close>

text \<open>
  The instance label of the \<open>seq\<close>-th occurrence of a base model (lines 1669 to 1672).
\<close>

definition instanceLabelOf :: "string \<Rightarrow> nat \<Rightarrow> string" where
  "instanceLabelOf baseName seq = (if seq > 1 then baseName @ ''-'' @ itoa seq else baseName)"

text \<open>
  The loop over the selected models (lines 1665 to 1698). \<open>k\<close> counts the
  \<^verbatim>\<open>split-window\<close> calls, \<open>baseCounts\<close> is the map of the same name, and the accumulator
  holds the effects so far and the fields of the message under construction.
\<close>

fun openLoop ::
  "world \<Rightarrow> model \<Rightarrow> string \<Rightarrow> nat \<Rightarrow> (string \<Rightarrow> nat) \<Rightarrow> string list \<Rightarrow>
     effect list \<times> panesOpenedMsg \<Rightarrow> (effect list \<times> panesOpenedMsg) option" where
  "openLoop w m branchName k baseCounts [] acc = Some acc"
| "openLoop w m branchName k baseCounts (baseName # rest) acc =
     (let seq = baseCounts baseName + 1;
          baseCounts1 = baseCounts(baseName := seq);
          instanceLabel = instanceLabelOf baseName seq;
          ident = identifierFor w m instanceLabel
      in case currentProvider m of
           None \<Rightarrow> None
         | Some provider \<Rightarrow>
             (let prompt = Join (input m) [CHR 0x0A];
                  modelFull = provider @ ''/'' @ baseName;
                  effs = fst acc @ [SplitWindow ident branchName modelFull prompt];
                  r = snd acc
              in case splitWindow w k of
                   None \<Rightarrow>
                     openLoop w m branchName (k + 1) baseCounts1 rest (effs, r\<lparr>err := Some errTmux\<rparr>)
                 | Some out \<Rightarrow>
                     openLoop w m branchName (k + 1) baseCounts1 rest
                       (effs, r\<lparr>count := count r + 1,
                                paneIDs := paneIDs r @ [TrimSpace out],
                                worktrees := worktrees r @ [ident],
                                modelNames := modelNames r @ [instanceLabel],
                                providersOpened := providersOpened r @ [provider],
                                baseModels := baseModels r @ [baseName]\<rparr>)))"

definition noPanes :: "error option \<Rightarrow> panesOpenedMsg" where
  "noPanes e = \<lparr>count = 0, err = e, paneIDs = [], worktrees = [], modelNames = [],
                providersOpened = [], baseModels = []\<rparr>"

definition run_openPanesCmd ::
  "world \<Rightarrow> string list \<Rightarrow> model \<Rightarrow> (effect list \<times> msg option) option" where
  "run_openPanesCmd w mods m =
     (case (if setDefault m
            then (case currentProvider m of
                    None \<Rightarrow> None
                  | Some p \<Rightarrow> Some [SaveDefaults p, DisplayMessage])
            else Some []) of
        None \<Rightarrow> None
      | Some e0 \<Rightarrow>
          if \<not> insideTmux w
          then Some (e0 @ [DisplayMessage], Some (PanesOpened (noPanes (Some errNotInsideTmux))))
          else (let branchName = TrimSpace (branch m) in
            if branchName = []
            then Some (e0, Some (PanesOpened (noPanes (Some errBranchRequired))))
            else (let e1 = e0 @ [GitCheckoutNew branchName, GitCheckout branchName, QueryPane] in
              case paneQuery w of
                None \<Rightarrow> Some (e1, Some (PanesOpened (noPanes (Some errTmux))))
              | Some paneOut \<Rightarrow>
                  (case openLoop w m branchName 0 (\<lambda>b. 0) mods (e1, noPanes None) of
                     None \<Rightarrow> None
                   | Some (e2, r) \<Rightarrow>
                       Some (e2 @ [SelectLayoutTiled, SelectPane (TrimSpace paneOut), DisplayMessage],
                             Some (PanesOpened r))))))"

section \<open>Bail, Next, Wrap and FollowUp (lines 1713 to 1948)\<close>

text \<open>
  The two clean-up loops that \<^verbatim>\<open>bailCmd\<close>, \<^verbatim>\<open>nextCmd\<close> and \<^verbatim>\<open>wrapCmd\<close> each spell out:
  kill every created pane; then, for every created worktree, remove it and delete its
  branch.
\<close>

definition cleanupEffects :: "string \<Rightarrow> model \<Rightarrow> effect list" where
  "cleanupEffects parentDir m =
     map KillPane (createdPanes m) @
     concat (map (\<lambda>wt. [GitWorktreeRemove parentDir wt, GitBranchDelete wt]) (createdWorktrees m))"

definition run_bailCmd :: "world \<Rightarrow> model \<Rightarrow> (effect list \<times> msg option) option" where
  "run_bailCmd w m =
     (if \<not> insideTmux w then Some ([], Some bailCompleteMsg)
      else (let kills = map KillPane (createdPanes m) in
        case getwd w of
          None \<Rightarrow> Some (kills, Some bailCompleteMsg)
        | Some (parentDir, base) \<Rightarrow>
            Some (cleanupEffects parentDir m @ [DisplayMessage], Some bailCompleteMsg)))"

text \<open>The commit message (lines 1776 to 1783): a heading and the numbered prompt log.\<close>

fun numberedPrompts :: "nat \<Rightarrow> string list \<Rightarrow> string" where
  "numberedPrompts i [] = []"
| "numberedPrompts i (p # ps) = itoa (i + 1) @ ''. '' @ p @ [CHR 0x0A] @ numberedPrompts (i + 1) ps"

definition commitMessage :: "model \<Rightarrow> string \<Rightarrow> string" where
  "commitMessage m modelName =
     (let prompts = listAt (modelPrompts m) modelName in
      ''Changes from '' @ modelName @
      (if length prompts > 0 then [CHR 0x0A, CHR 0x0A] @ numberedPrompts 0 prompts else []))"

text \<open>
  From the commit to the end (lines 1785 to 1829, and 1873 to 1917): \<^verbatim>\<open>git add\<close>,
  \<^verbatim>\<open>git commit\<close>, checkout of the feature branch, merge, push, the clean-up loops. A failed
  add, checkout or merge returns \<^verbatim>\<open>bailCompleteMsg\<close> at once; a failed commit or push
  only shows a message.
\<close>

definition mergeSteps ::
  "msg \<Rightarrow> world \<Rightarrow> model \<Rightarrow> string \<Rightarrow> string \<Rightarrow> string \<Rightarrow> effect list \<times> msg" where
  "mergeSteps final w m modelName worktree parentDir =
     (let add = [GitAdd parentDir worktree] in
      if \<not> gitAddOK w then (add @ [DisplayMessage], bailCompleteMsg)
      else (let commit = [GitCommit parentDir worktree (commitMessage m modelName)] @
                         (if gitCommitOK w then [] else [DisplayMessage]);
                featureBranch = TrimSpace (branch m);
                checkout = [GitCheckout featureBranch] in
        if \<not> gitCheckoutOK w
        then (add @ commit @ checkout @ [DisplayMessage], bailCompleteMsg)
        else (let merge = [GitMerge worktree modelName] in
          if \<not> gitMergeOK w
          then (add @ commit @ checkout @ merge @ [DisplayMessage], bailCompleteMsg)
          else (let push = [GitPush featureBranch] @
                           (if gitPushOK w then [] else [DisplayMessage]) in
            (add @ commit @ checkout @ merge @ push @ cleanupEffects parentDir m @
               [DisplayMessage], final)))))"

text \<open>
  \<^verbatim>\<open>nextCmd\<close> and \<^verbatim>\<open>wrapCmd\<close> are the same text but for the message they return at the
  end (\<^verbatim>\<open>nextCompleteMsg\<close>, \<^verbatim>\<open>wrapCompleteMsg\<close>): the message is the parameter \<open>final\<close>.
\<close>

definition mergeCmd ::
  "msg \<Rightarrow> world \<Rightarrow> model \<Rightarrow> string \<Rightarrow> (effect list \<times> msg option) option" where
  "mergeCmd final w m modelName =
     (if \<not> insideTmux w then Some ([], Some bailCompleteMsg)
      else case modelToWorktree m modelName of
        None \<Rightarrow> Some ([DisplayMessage], Some bailCompleteMsg)
      | Some worktree \<Rightarrow>
          (let prov0 = stringAt (instanceProvider m) modelName;
               base0 = stringAt (instanceBaseModel m) modelName
           in case (if prov0 = [] \<or> base0 = []
                    then (case currentProvider m of
                            None \<Rightarrow> None
                          | Some p \<Rightarrow> Some (p, modelName))
                    else Some (prov0, base0)) of
                None \<Rightarrow> None
              | Some (prov, base) \<Rightarrow>
                  (let e0 = [IncrementChoice prov base] @
                            (if incrementChoiceOK w then [] else [DisplayMessage])
                   in case getwd w of
                        None \<Rightarrow> Some (e0 @ [DisplayMessage], Some bailCompleteMsg)
                      | Some (parentDir, cwdBase) \<Rightarrow>
                          (case mergeSteps final w m modelName worktree parentDir of
                             (es, r) \<Rightarrow> Some (e0 @ es, Some r)))))"

definition run_nextCmd :: "world \<Rightarrow> model \<Rightarrow> string \<Rightarrow> (effect list \<times> msg option) option" where
  "run_nextCmd w m modelName = mergeCmd nextCompleteMsg w m modelName"

definition run_wrapCmd :: "world \<Rightarrow> model \<Rightarrow> string \<Rightarrow> (effect list \<times> msg option) option" where
  "run_wrapCmd w m modelName = mergeCmd wrapCompleteMsg w m modelName"

text \<open>\<^verbatim>\<open>sendToModelPaneCmd\<close> (lines 1921 to 1948); it returns no message.\<close>

definition run_sendToModelPaneCmd ::
  "world \<Rightarrow> string \<Rightarrow> string \<Rightarrow> string \<Rightarrow> model \<Rightarrow> (effect list \<times> msg option) option" where
  "run_sendToModelPaneCmd w paneID modelName prompt m =
     (if \<not> insideTmux w then Some ([], None)
      else (let provider0 = stringAt (instanceProvider m) modelName;
                base0 = stringAt (instanceBaseModel m) modelName
            in case (if provider0 = [] \<or> base0 = []
                     then (case currentProvider m of
                             None \<Rightarrow> None
                           | Some p \<Rightarrow> Some (p, modelName))
                     else Some (provider0, base0)) of
                 None \<Rightarrow> None
               | Some (provider, base) \<Rightarrow>
                   Some ([SendInterrupt paneID, SendCommand paneID (provider @ ''/'' @ base) prompt,
                          DisplayMessage], None)))"

text \<open>Running a command: the body of the closure. \<^verbatim>\<open>tea.Quit\<close> touches nothing outside.\<close>

fun runCmd :: "world \<Rightarrow> cmd \<Rightarrow> (effect list \<times> msg option) option" where
  "runCmd w Quit = Some ([], None)"
| "runCmd w (openPanesCmd mods m) = run_openPanesCmd w mods m"
| "runCmd w (bailCmd m) = run_bailCmd w m"
| "runCmd w (nextCmd m modelName) = run_nextCmd w m modelName"
| "runCmd w (wrapCmd m modelName) = run_wrapCmd w m modelName"
| "runCmd w (sendToModelPaneCmd paneID modelName prompt m) =
     run_sendToModelPaneCmd w paneID modelName prompt m"

section \<open>\<^verbatim>\<open>Update\<close>: completion messages (lines 648 to 693)\<close>

text \<open>
  The loop of the \<^verbatim>\<open>panesOpenedMsg\<close> case (lines 675 to 691): register each label with
  its pane, its worktree and a prompt log that starts with the submitted prompt.
\<close>

fun registerInstances :: "panesOpenedMsg \<Rightarrow> string \<Rightarrow> nat \<Rightarrow> string list \<Rightarrow> model \<Rightarrow> model option" where
  "registerInstances p initialPrompt i [] m = Some m"
| "registerInstances p initialPrompt i (instanceLabel # rest) m =
     (if i < length (paneIDs p) \<and> i < length (worktrees p)
      then registerInstances p initialPrompt (i + 1) rest
             (m\<lparr>modelToPaneID := (modelToPaneID m)(instanceLabel \<mapsto> paneIDs p ! i),
                modelToWorktree := (modelToWorktree m)(instanceLabel \<mapsto> worktrees p ! i),
                modelPrompts := (modelPrompts m)(instanceLabel \<mapsto> [initialPrompt]),
                instanceProvider :=
                  (if i < length (providersOpened p)
                   then (instanceProvider m)(instanceLabel \<mapsto> providersOpened p ! i)
                   else instanceProvider m),
                instanceBaseModel :=
                  (if i < length (baseModels p)
                   then (instanceBaseModel m)(instanceLabel \<mapsto> baseModels p ! i)
                   else instanceBaseModel m)\<rparr>)
      else None)"

text \<open>
  The \<^verbatim>\<open>panesOpenedMsg\<close> case. (It also writes the history file, which the model leaves
  out.)
\<close>

definition updatePanesOpened :: "model \<Rightarrow> panesOpenedMsg \<Rightarrow> (model \<times> cmd option) option" where
  "updatePanesOpened m p =
     (if err p = None \<and> count p > 0 then
        (let initialPrompt = TrimSpace (Join (input m) [CHR 0x0A]);
             m1 = m\<lparr>screen := screenIteration,
                    createdPanes := createdPanes m @ paneIDs p,
                    createdWorktrees := createdWorktrees m @ worktrees p,
                    history := pushHistorySlice (history m) initialPrompt\<rparr>
         in case registerInstances p initialPrompt 0 (modelNames p) m1 of
              None \<Rightarrow> None
            | Some m2 \<Rightarrow> Some (m2, None))
      else Some (m, None))"

text \<open>The \<^verbatim>\<open>nextCompleteMsg\<close> case (lines 650 to 661).\<close>

definition updateNextComplete :: "model \<Rightarrow> model" where
  "updateNextComplete m =
     m\<lparr>iterationInput := [[]],
       iterationCursor := \<lparr>row = 0, col = 0\<rparr>,
       iterationHistoryIndex := - 1,
       draftIterationInput := None,
       autocompleteActive := False,
       autocompleteOptions := [],
       screen := screenNewTask,
       newTaskFocus := focusTask\<rparr>"

section \<open>\<^verbatim>\<open>Update\<close>: keys on the Setup screen (lines 799 to 954, 1093 to 1117)\<close>

text \<open>
  The hover index clamped into the option list (lines 847 to 852, 924 to 929); the list is
  not empty there.
\<close>

definition clampHover :: "int \<Rightarrow> string list \<Rightarrow> int" where
  "clampHover h opts =
     (let h1 = (if h < 0 then 0 else h)
      in if h1 \<ge> int (length opts) then int (length opts) - 1 else h1)"

text \<open>
  Space on the open models dropdown (lines 842 to 860): one more of the hovered model.
  Backspace there (lines 919 to 939): one fewer, when the count is above zero.
  The additions \<^verbatim>\<open>m.selected[p][name] + 1\<close> and \<^verbatim>\<open>- 1\<close> are 64-bit operations: the
  count after \<open>2^63 - 1\<close> is \<open>-2^63\<close>.
\<close>

definition incrementHovered :: "model \<Rightarrow> model option" where
  "incrementHovered m =
     (case providerModels m of
        None \<Rightarrow> None
      | Some opts \<Rightarrow>
          if length opts = 0 then Some m
          else (let h = clampHover (modelsHover m) opts in
            case currentProvider m of
              None \<Rightarrow> None
            | Some p \<Rightarrow>
                (let sel = (case selected m p of None \<Rightarrow> Map.empty | Some s \<Rightarrow> s);
                     name = opts ! nat h
                 in Some (m\<lparr>modelsHover := h,
                           selected := (selected m)(p \<mapsto> sel(name \<mapsto> wrapInt (countAt sel name + 1)))\<rparr>))))"

definition decrementHovered :: "model \<Rightarrow> model option" where
  "decrementHovered m =
     (case providerModels m of
        None \<Rightarrow> None
      | Some opts \<Rightarrow>
          if length opts = 0 then Some m
          else (let h = clampHover (modelsHover m) opts in
            case currentProvider m of
              None \<Rightarrow> None
            | Some p \<Rightarrow>
                (let sel = (case selected m p of None \<Rightarrow> Map.empty | Some s \<Rightarrow> s);
                     name = opts ! nat h
                 in if countAt sel name > 0
                    then Some (m\<lparr>modelsHover := h,
                                 selected := (selected m)(p \<mapsto> sel(name \<mapsto> wrapInt (countAt sel name - 1)))\<rparr>)
                    else Some (m\<lparr>modelsHover := h, selected := (selected m)(p \<mapsto> sel)\<rparr>))))"

text \<open>Writing an edited field or buffer back into the session.\<close>

definition setBranch :: "model \<Rightarrow> (string \<times> nat) option \<Rightarrow> model option" where
  "setBranch m r = map_option (\<lambda>(s, c). m\<lparr>branch := s, branchCursor := c\<rparr>) r"

definition setTask :: "model \<Rightarrow> (string \<times> nat) option \<Rightarrow> model option" where
  "setTask m r = map_option (\<lambda>(s, c). m\<lparr>task := s, taskCursor := c\<rparr>) r"

definition setInput :: "model \<Rightarrow> (string list \<times> cursorPos) option \<Rightarrow> model option" where
  "setInput m r = map_option (\<lambda>(rows, cur). m\<lparr>input := rows, cursor := cur\<rparr>) r"

definition setIteration :: "model \<Rightarrow> (string list \<times> cursorPos) option \<Rightarrow> model option" where
  "setIteration m r = map_option (\<lambda>(rows, cur). m\<lparr>iterationInput := rows, iterationCursor := cur\<rparr>) r"

definition setNewTaskName :: "model \<Rightarrow> (string \<times> nat) option \<Rightarrow> model option" where
  "setNewTaskName m r = map_option (\<lambda>(s, c). m\<lparr>newTaskName := s, newTaskNameCursor := c\<rparr>) r"

definition setNewTaskPrompt :: "model \<Rightarrow> (string list \<times> cursorPos) option \<Rightarrow> model option" where
  "setNewTaskPrompt m r = map_option (\<lambda>(rows, cur). m\<lparr>newTaskPrompt := rows, newTaskCursor := cur\<rparr>) r"

definition noCmd :: "model option \<Rightarrow> (model \<times> cmd option) option" where
  "noCmd r = map_option (\<lambda>m. (m, None)) r"

text \<open>Enter on the Setup screen (lines 799 to 838).\<close>

definition setupEnter :: "model \<Rightarrow> (model \<times> cmd option) option" where
  "setupEnter m =
     (if focus m = focusBranch \<or> focus m = focusTask then Some (m\<lparr>focus := focusPrompt\<rparr>, None)
      else if focus m = focusProvider then
        (if providerOpen m
         then Some (m\<lparr>providerIndex := providerHover m, providerOpen := False, modelsHover := 0\<rparr>, None)
         else Some (m\<lparr>providerOpen := True, providerHover := providerIndex m\<rparr>, None))
      else if focus m = focusModels then
        (if \<not> modelsOpen m
         then Some (m\<lparr>modelsOpen := True, modelsHover := 0\<rparr>, None)
         else Some (m\<lparr>modelsOpen := False\<rparr>, None))
      else
        (case setInput m (insertNewline (input m, cursor m)) of
           None \<Rightarrow> None
         | Some m1 \<Rightarrow>
             (case selectedModels m1 of
                None \<Rightarrow> None
              | Some mods \<Rightarrow>
                  if length mods > 0 then Some (m1, Some (openPanesCmd mods m1))
                  else Some (m1, None))))"

text \<open>Space on the Setup screen (lines 840 to 877).\<close>

definition setupSpace :: "model \<Rightarrow> (model \<times> cmd option) option" where
  "setupSpace m =
     (if focus m = focusModels \<and> modelsOpen m then noCmd (incrementHovered m)
      else if focus m = focusBranch
        then noCmd (setBranch m (insertField '' '' (branch m, branchCursor m)))
      else if focus m = focusTask
        then noCmd (setTask m (insertField '' '' (task m, taskCursor m)))
      else if focus m = focusPrompt
        then noCmd (setInput m (insertText '' '' (input m, cursor m)))
      else Some (m, None))"

text \<open>Backspace on the Setup screen, without Alt (lines 897 to 954).\<close>

definition setupBackspace :: "model \<Rightarrow> (model \<times> cmd option) option" where
  "setupBackspace m =
     (if focus m = focusBranch
        then noCmd (setBranch m (backspaceField (branch m, branchCursor m)))
      else if focus m = focusTask
        then noCmd (setTask m (backspaceField (task m, taskCursor m)))
      else if focus m = focusProvider
        then Some (if providerOpen m then m\<lparr>providerOpen := False\<rparr> else m, None)
      else if focus m = focusModels
        then (if modelsOpen m then noCmd (decrementHovered m) else Some (m, None))
      else noCmd (setInput m (backspaceChar (input m, cursor m))))"

text \<open>Text input on the Setup screen (lines 1093 to 1117).\<close>

definition setupRunes :: "model \<Rightarrow> rune list \<Rightarrow> (model \<times> cmd option) option" where
  "setupRunes m rs =
     (if length rs > 0 then
        (let r = stringOfRunes rs in
         if focus m = focusBranch
           then noCmd (setBranch m (insertField r (branch m, branchCursor m)))
         else if focus m = focusTask
           then noCmd (setTask m (insertField r (task m, taskCursor m)))
         else if focus m = focusProvider \<or> focus m = focusModels
           then Some (m, None)
         else noCmd (setInput m (insertText r (input m, cursor m))))
      else Some (m, None))"

section \<open>\<^verbatim>\<open>updateIteration\<close> (lines 1123 to 1406)\<close>

definition closePopup :: "model \<Rightarrow> model" where
  "closePopup m = m\<lparr>autocompleteActive := False, autocompleteOptions := []\<rparr>"

text \<open>
  Enter while the popup is open (lines 1155 to 1165): replace the token under the cursor
  by the hovered candidate.
\<close>

definition acceptCompletion :: "model \<Rightarrow> model option" where
  "acceptCompletion m =
     (let cur = iterationCursor m in
      if row cur < length (iterationInput m) then
        (let line = iterationInput m ! row cur;
             ps = getAutocompletePrefix line (col cur)
         in if fst ps \<noteq> [] then
              (if autocompleteIndex m < length (autocompleteOptions m) \<and> col cur \<le> length line
               then (let completion = autocompleteOptions m ! autocompleteIndex m;
                         newLine = take (snd ps) line @ completion @ drop (col cur) line
                     in Some (closePopup
                          (m\<lparr>iterationInput := (iterationInput m)[row cur := newLine],
                             iterationCursor := cur\<lparr>col := snd ps + length completion\<rparr>\<rparr>)))
               else None)
            else Some (closePopup m))
      else None)"

text \<open>
  The text of the command buffer as Enter reads it (line 1167), and its four readings
  (lines 1168 to 1215).
\<close>

definition currentLine :: "model \<Rightarrow> string" where
  "currentLine m = TrimSpace (Join (iterationInput m) [CHR 0x0A])"

definition progressText :: "string \<Rightarrow> string" where
  "progressText modelName = ''Merging and pushing changes from '' @ modelName @ ''...''"

text \<open>
  The \<^verbatim>\<open>@label text\<close> reading (lines 1192 to 1197): the pane, the label and the text,
  when the line starts with \<^verbatim>\<open>@\<close>, has a space, and the label has a pane.
\<close>

definition followUpTarget :: "model \<Rightarrow> (string \<times> string \<times> string) option" where
  "followUpTarget m =
     (let parts = SplitN2 (currentLine m) in
      if HasPrefix (currentLine m) ''@'' \<and> length parts = 2 then
        (let modelName = TrimPrefix (parts ! 0) ''@''; prompt = parts ! 1 in
         case modelToPaneID m modelName of
           None \<Rightarrow> None
         | Some paneID \<Rightarrow> Some (paneID, modelName, prompt))
      else None)"

text \<open>
  What Enter does with a follow-up (lines 1198 to 1205). (It also writes the history
  file, which the model leaves out.)
\<close>

definition followUp :: "model \<Rightarrow> string \<Rightarrow> string \<Rightarrow> string \<Rightarrow> model \<times> cmd option" where
  "followUp m paneID modelName prompt =
     (let m1 = m\<lparr>modelPrompts :=
                  (modelPrompts m)(modelName \<mapsto> listAt (modelPrompts m) modelName @ [prompt]),
                history := pushHistorySlice (history m) prompt,
                iterationInput := [[]],
                iterationCursor := \<lparr>row = 0, col = 0\<rparr>\<rparr>
      in (m1, Some (sendToModelPaneCmd paneID modelName prompt m1)))"

definition iterationEnter :: "model \<Rightarrow> (model \<times> cmd option) option" where
  "iterationEnter m =
     (if autocompleteActive m \<and> length (autocompleteOptions m) > 0 then noCmd (acceptCompletion m)
      else if currentLine m = ''/bail'' then
        (let m1 = m\<lparr>screen := screenProgress,
                    progressMsg := ''Cleaning up panes, worktrees, and branches...''\<rparr>
         in Some (m1, Some (bailCmd m1)))
      else if HasPrefix (currentLine m) ''/next '' \<and>
              TrimSpace (TrimPrefix (currentLine m) ''/next '') \<noteq> [] then
        (let modelName = TrimSpace (TrimPrefix (currentLine m) ''/next '');
             m1 = m\<lparr>screen := screenProgress, progressMsg := progressText modelName\<rparr>
         in Some (m1, Some (nextCmd m1 modelName)))
      else if HasPrefix (currentLine m) ''/wrap '' \<and>
              TrimSpace (TrimPrefix (currentLine m) ''/wrap '') \<noteq> [] then
        (let modelName = TrimSpace (TrimPrefix (currentLine m) ''/wrap '');
             m1 = m\<lparr>screen := screenProgress, progressMsg := progressText modelName\<rparr>
         in Some (m1, Some (wrapCmd m1 modelName)))
      else (case followUpTarget m of
              Some (paneID, modelName, prompt) \<Rightarrow> Some (followUp m paneID modelName prompt)
            | None \<Rightarrow> noCmd (setIteration m (insertNewline (iterationInput m, iterationCursor m)))))"

text \<open>Backspace, without Alt (lines 1226 to 1259).\<close>

definition iterationBackspace :: "string list \<Rightarrow> model \<Rightarrow> (model \<times> cmd option) option" where
  "iterationBackspace ks m =
     (if col (iterationCursor m) > 0 then
        (case setIteration m (backspaceChar (iterationInput m, iterationCursor m)) of
           None \<Rightarrow> None
         | Some m1 \<Rightarrow> noCmd (refreshAutocomplete ks m1))
      else if row (iterationCursor m) > 0 then
        noCmd (setIteration (closePopup m) (backspaceChar (iterationInput m, iterationCursor m)))
      else Some (m, None))"

text \<open>Space (lines 1350 to 1355) and text input (lines 1370 to 1403).\<close>

definition iterationSpace :: "model \<Rightarrow> (model \<times> cmd option) option" where
  "iterationSpace m =
     noCmd (setIteration (closePopup m) (insertText '' '' (iterationInput m, iterationCursor m)))"

definition iterationRunes :: "string list \<Rightarrow> model \<Rightarrow> rune list \<Rightarrow> (model \<times> cmd option) option" where
  "iterationRunes ks m rs =
     (if length rs > 0 then
        (let r = stringOfRunes rs in
         case setIteration m (insertText r (iterationInput m, iterationCursor m)) of
           None \<Rightarrow> None
         | Some m1 \<Rightarrow>
             if r = ''/'' \<or> r = ''@'' then
               (case getAutocompleteOptions ks m1 r of
                  None \<Rightarrow> None
                | Some opts \<Rightarrow>
                    if length opts > 0
                    then Some (m1\<lparr>autocompleteOptions := opts, autocompleteActive := True,
                                 autocompleteIndex := 0\<rparr>, None)
                    else Some (m1\<lparr>autocompleteOptions := opts\<rparr>, None))
             else noCmd (refreshAutocomplete ks m1))
      else Some (m, None))"

definition updateIteration :: "string list \<Rightarrow> model \<Rightarrow> keyMsg \<Rightarrow> (model \<times> cmd option) option" where
  "updateIteration ks m k =
     (case Type k of
        KeyEnter \<Rightarrow> iterationEnter m
      | KeyBackspace \<Rightarrow> iterationBackspace ks m
      | KeySpace \<Rightarrow> iterationSpace m
      | KeyRunes \<Rightarrow> iterationRunes ks m (Runes k))"

section \<open>\<^verbatim>\<open>updateNewTask\<close> (lines 1408 to 1595)\<close>

definition newTaskEnter :: "model \<Rightarrow> (model \<times> cmd option) option" where
  "newTaskEnter m =
     (if newTaskFocus m = focusTask then Some (m\<lparr>newTaskFocus := focusPrompt\<rparr>, None)
      else (case (if TrimSpace (Join (newTaskPrompt m) [CHR 0x0A]) \<noteq> []
                  then selectedModels m else Some []) of
              None \<Rightarrow> None
            | Some mods \<Rightarrow>
                if length mods > 0 then
                  (let m1 = m\<lparr>task := newTaskName m, input := newTaskPrompt m,
                              newTaskName := [], newTaskNameCursor := 0,
                              newTaskPrompt := [[]], newTaskCursor := \<lparr>row = 0, col = 0\<rparr>\<rparr>
                   in Some (m1, Some (openPanesCmd mods m1)))
                else noCmd (setNewTaskPrompt m (insertNewline (newTaskPrompt m, newTaskCursor m)))))"

definition updateNewTask :: "model \<Rightarrow> keyMsg \<Rightarrow> (model \<times> cmd option) option" where
  "updateNewTask m k =
     (case Type k of
        KeyEnter \<Rightarrow> newTaskEnter m
      | KeyBackspace \<Rightarrow>
          if newTaskFocus m = focusTask
          then noCmd (setNewTaskName m (backspaceField (newTaskName m, newTaskNameCursor m)))
          else noCmd (setNewTaskPrompt m (backspaceChar (newTaskPrompt m, newTaskCursor m)))
      | KeySpace \<Rightarrow>
          if newTaskFocus m = focusTask
          then noCmd (setNewTaskName m (insertField '' '' (newTaskName m, newTaskNameCursor m)))
          else noCmd (setNewTaskPrompt m (insertText '' '' (newTaskPrompt m, newTaskCursor m)))
      | KeyRunes \<Rightarrow>
          if length (Runes k) > 0 then
            (if newTaskFocus m = focusTask
             then noCmd (setNewTaskName m
                    (insertField (stringOfRunes (Runes k)) (newTaskName m, newTaskNameCursor m)))
             else noCmd (setNewTaskPrompt m
                    (insertText (stringOfRunes (Runes k)) (newTaskPrompt m, newTaskCursor m))))
          else Some (m, None))"

section \<open>\<^verbatim>\<open>Update\<close> (lines 636 to 1121)\<close>

text \<open>
  \<open>ks\<close> is the order in which a \<^verbatim>\<open>range\<close> over \<^verbatim>\<open>modelToWorktree\<close> made while this
  message is handled visits the keys. The result is the new state and the command to run
  next (\<open>None\<close> for \<^verbatim>\<open>nil\<close>).
\<close>

definition Update :: "string list \<Rightarrow> model \<Rightarrow> msg \<Rightarrow> (model \<times> cmd option) option" where
  "Update ks m message =
     (case message of
        bailCompleteMsg \<Rightarrow> Some (m, Some Quit)
      | nextCompleteMsg \<Rightarrow> Some (updateNextComplete m, None)
      | wrapCompleteMsg \<Rightarrow> Some (m, Some Quit)
      | cleanupCompleteMsg \<Rightarrow> Some (m, Some Quit)
      | PanesOpened p \<Rightarrow> updatePanesOpened m p
      | KeyMsg k \<Rightarrow>
          if screen m = screenIteration then updateIteration ks m k
          else if screen m = screenNewTask then updateNewTask m k
          else (case Type k of
                  KeyEnter \<Rightarrow> setupEnter m
                | KeySpace \<Rightarrow> setupSpace m
                | KeyBackspace \<Rightarrow> setupBackspace m
                | KeyRunes \<Rightarrow> setupRunes m (Runes k)))"

section \<open>Vocabulary of the properties, concrete sessions and inputs\<close>

text \<open>
  Twenty-five history entries with blanks around each, and twenty-five different entries
  of which the last two differ only by a trailing blank.
\<close>

definition sampleEntries :: "string list" where
  "sampleEntries = map (\<lambda>c. [CHR '' '', c, CHR '' ''])
     ''abcdefghijklmnopqrstuvwxy''"

definition nearEntries :: "string list" where
  "nearEntries = map (\<lambda>c. [c]) ''abcdefghijklmnopqrstuvwx'' @ [''x '']"

text \<open>
  \<^verbatim>\<open>initialModel\<close> (lines 398 to 486) when no defaults file exists: the catalog, empty
  selections, focus on the prompt. The branch read from git and the history read from
  disk are the parameters.
\<close>

definition initialModel :: "string \<Rightarrow> string list \<Rightarrow> bool \<Rightarrow> model" where
  "initialModel initialBranch hist setDef =
     \<lparr>input = [[]],
      cursor = \<lparr>row = 0, col = 0\<rparr>,
      branch = initialBranch,
      branchCursor = length initialBranch,
      task = [],
      taskCursor = 0,
      providers = [''github-copilot'', ''OpenAI''],
      providerIndex = 0,
      providerOpen = False,
      providerHover = 0,
      models = [''github-copilot'' \<mapsto>
                  [''claude-sonnet-4.5'', ''claude-haiku-4.5'', ''gpt-5-mini'', ''gpt-5'',
                   ''gemini-2.0-flash-001'', ''claude-opus-4'', ''grok-code-fast-1'',
                   ''claude-3.5-sonnet'', ''o3-mini'', ''gpt-5-codex'', ''gpt-4o'', ''gpt-4.1'',
                   ''o4-mini'', ''claude-opus-41'', ''claude-3.7-sonnet'', ''gemini-2.5-pro'',
                   ''o3'', ''claude-sonnet-4'', ''claude-3.7-sonnet-thought''],
                ''OpenAI'' \<mapsto> [''gpt-5'', ''gpt-5-codex'', ''gpt-5-mini'']],
      selected = [''github-copilot'' \<mapsto> Map.empty, ''OpenAI'' \<mapsto> Map.empty],
      modelsOpen = False,
      modelsHover = 0,
      focus = focusPrompt,
      screen = screenSetup,
      iterationInput = [[]],
      iterationCursor = \<lparr>row = 0, col = 0\<rparr>,
      autocompleteOptions = [],
      autocompleteIndex = 0,
      autocompleteActive = False,
      createdPanes = [],
      createdWorktrees = [],
      modelToPaneID = Map.empty,
      modelToWorktree = Map.empty,
      modelPrompts = Map.empty,
      instanceProvider = Map.empty,
      instanceBaseModel = Map.empty,
      newTaskName = [],
      newTaskNameCursor = 0,
      newTaskPrompt = [[]],
      newTaskCursor = \<lparr>row = 0, col = 0\<rparr>,
      newTaskFocus = focusTask,
      setDefault = setDef,
      progressMsg = [],
      history = hist,
      iterationHistoryIndex = - 1,
      draftIterationInput = None\<rparr>"

text \<open>The key messages, and a run of key presses through \<open>Update\<close>.\<close>

definition enterKey :: keyMsg where
  "enterKey = \<lparr>Type = KeyEnter, Runes = []\<rparr>"


definition backspaceKey :: keyMsg where
  "backspaceKey = \<lparr>Type = KeyBackspace, Runes = []\<rparr>"

definition runeKey :: "rune \<Rightarrow> keyMsg" where
  "runeKey r = \<lparr>Type = KeyRunes, Runes = [r]\<rparr>"

fun runKeys :: "string list \<Rightarrow> model \<Rightarrow> keyMsg list \<Rightarrow> model option" where
  "runKeys ks m [] = Some m"
| "runKeys ks m (k # rest) =
     (case Update ks m (KeyMsg k) of
        None \<Rightarrow> None
      | Some (m1, c) \<Rightarrow> runKeys ks m1 rest)"

text \<open>The cursor of a buffer is on a row and within it.\<close>

definition validCursor :: "string list \<Rightarrow> cursorPos \<Rightarrow> bool" where
  "validCursor rows cur \<longleftrightarrow> row cur < length rows \<and> col cur \<le> length (rows ! row cur)"

text \<open>
  A buffer after a newline at the cursor: the row under the cursor is split at the
  cursor column and the cursor moves to the start of the new row. \<open>promptNewline\<close> is
  the session with that done to the Setup prompt.
\<close>

definition splitRow :: "string list \<Rightarrow> cursorPos \<Rightarrow> string list" where
  "splitRow rows cur =
     take (row cur) rows
     @ [take (col cur) (rows ! row cur), drop (col cur) (rows ! row cur)]
     @ drop (Suc (row cur)) rows"

definition promptNewline :: "model \<Rightarrow> model" where
  "promptNewline m =
     m\<lparr>input := splitRow (input m) (cursor m),
       cursor := \<lparr>row = row (cursor m) + 1, col = 0\<rparr>\<rparr>"







text \<open>A session with the three instances sonnet, sonnet-2 and gpt provisioned.\<close>

definition threeInstances :: model where
  "threeInstances =
     (initialModel ''feature'' [] False)
       \<lparr>screen := screenIteration,
        createdPanes := [''%1'', ''%2'', ''%3''],
        createdWorktrees := [''repo_feature_sonnet'', ''repo_feature_sonnet-2'', ''repo_feature_gpt''],
        modelToPaneID := [''sonnet'' \<mapsto> ''%1'', ''sonnet-2'' \<mapsto> ''%2'', ''gpt'' \<mapsto> ''%3''],
        modelToWorktree := [''sonnet'' \<mapsto> ''repo_feature_sonnet'',
                            ''sonnet-2'' \<mapsto> ''repo_feature_sonnet-2'',
                            ''gpt'' \<mapsto> ''repo_feature_gpt''],
        modelPrompts := [''sonnet'' \<mapsto> [''fix it''], ''sonnet-2'' \<mapsto> [''fix it''],
                         ''gpt'' \<mapsto> [''fix it'']]\<rparr>"





text \<open>A world in which every step succeeds, and a session with the catalog A, B.\<close>

definition goodWorld :: world where
  "goodWorld =
     \<lparr>insideTmux = True, getwd = Some (''/home/dev'', ''repo''), saveDefaultsOK = True,
      incrementChoiceOK = True, paneQuery = Some ''%0'',
      splitWindow = (\<lambda>k. Some (''%'' @ itoa (k + 1))),
      gitAddOK = True, gitCommitOK = True, gitCheckoutOK = True, gitMergeOK = True,
      gitPushOK = True\<rparr>"

definition twoModels :: model where
  "twoModels =
     (initialModel ''feature'' [] False)
       \<lparr>providers := [''P''],
        models := [''P'' \<mapsto> [''A'', ''B'']],
        selected := [''P'' \<mapsto> [''A'' \<mapsto> 2, ''B'' \<mapsto> 1]]\<rparr>"

text \<open>The session with three instances and a command typed into the iteration prompt.\<close>

definition commandSession :: "string \<Rightarrow> model" where
  "commandSession line =
     threeInstances\<lparr>iterationInput := [line], iterationCursor := \<lparr>row = 0, col = length line\<rparr>\<rparr>"

text \<open>The autocomplete popup is closed or empty, so Enter submits the command.\<close>

definition popupClosed :: "model \<Rightarrow> bool" where
  "popupClosed m \<longleftrightarrow> (autocompleteActive m \<longrightarrow> autocompleteOptions m = [])"

text \<open>
  The effects of Cleanup: killing a pane, removing a worktree, deleting a branch.
\<close>

fun isCleanup :: "effect \<Rightarrow> bool" where
  "isCleanup (KillPane p) = True"
| "isCleanup (GitWorktreeRemove d t) = True"
| "isCleanup (GitBranchDelete t) = True"
| "isCleanup e = False"

text \<open>The version-control effects of Next: commit steps, checkout, merge, push.\<close>

fun isVersionControl :: "effect \<Rightarrow> bool" where
  "isVersionControl (GitAdd d t) = True"
| "isVersionControl (GitCommit d t c) = True"
| "isVersionControl (GitCheckout b) = True"
| "isVersionControl (GitCheckoutNew b) = True"
| "isVersionControl (GitMerge t n) = True"
| "isVersionControl (GitPush b) = True"
| "isVersionControl e = False"

text \<open>Cleanup of all instances happened: every pane, every worktree, every branch.\<close>

definition cleanupDone :: "string \<Rightarrow> model \<Rightarrow> effect list \<Rightarrow> bool" where
  "cleanupDone parentDir m effs \<longleftrightarrow>
     (\<forall>p \<in> set (createdPanes m). KillPane p \<in> set effs) \<and>
     (\<forall>t \<in> set (createdWorktrees m).
        GitWorktreeRemove parentDir t \<in> set effs \<and> GitBranchDelete t \<in> set effs)"

text \<open>Worlds in which only the push, or only the merge, fails.\<close>

definition pushFails :: world where
  "pushFails = goodWorld\<lparr>gitPushOK := False\<rparr>"

definition mergeFails :: world where
  "mergeFails = goodWorld\<lparr>gitMergeOK := False\<rparr>"

text \<open>A world in which the first \<^verbatim>\<open>split-window\<close> of a launch fails and the others succeed.\<close>

definition firstPaneFails :: world where
  "firstPaneFails =
     goodWorld\<lparr>splitWindow := (\<lambda>k. if k = 0 then None else if k = 1 then Some ''%7'' else Some ''%8'')\<rparr>"

text \<open>The session with the catalog A, B and no branch name.\<close>

definition noBranch :: model where
  "noBranch = twoModels\<lparr>branch := ''  '', branchCursor := 2\<rparr>"

text \<open>
  The completion message of a launch of A, A, B whose first pane failed, and one of a
  launch that opened a single pane.
\<close>

definition partialCompletion :: panesOpenedMsg where
  "partialCompletion =
     \<lparr>count = 2, err = Some errTmux, paneIDs = [''%7'', ''%8''],
      worktrees = [''repo_feature_A-2'', ''repo_feature_B''],
      modelNames = [''A-2'', ''B''], providersOpened = [''P'', ''P''],
      baseModels = [''A'', ''B'']\<rparr>"

definition oneOpened :: panesOpenedMsg where
  "oneOpened =
     \<lparr>count = 1, err = None, paneIDs = [''%1''], worktrees = [''repo_feature_A''],
      modelNames = [''A''], providersOpened = [''P''], baseModels = [''A'']\<rparr>"

section \<open>Properties of the History Store\<close>

lemma pushHistorySlice_refines: "pushHistorySlice h e = History_push_spec h e"
  by (cases h) (simp_all add: pushHistorySlice_def History_push_spec_def historyMax_def Let_def)

lemma push_spec_idem: "History_push_spec (History_push_spec h e) e = History_push_spec h e"
  by (cases h) (simp_all add: History_push_spec_def Let_def)

lemma take_append_take: "take n (xs @ take n ys) = take n (xs @ ys)"
  by simp

text \<open>
  Pushing a run of entries whose trimmed forms are non-empty and pairwise different, the
  first of them different from the current head: the run, newest first, heads the result.
\<close>

lemma push_fold_fresh:
  assumes "\<forall>e \<in> set es. TrimSpace e \<noteq> []"
    and "distinct (map TrimSpace es)"
    and "es \<noteq> []"
    and "h = [] \<or> hd h \<noteq> TrimSpace (hd es)"
  shows "foldl pushHistorySlice h es = take 20 (rev (map TrimSpace es) @ h)"
  using assms
proof (induction es arbitrary: h)
  case Nil
  then show ?case by simp
next
  case (Cons e es)
  let ?t = "TrimSpace e"
  have step: "pushHistorySlice h e = take 20 (?t # h)"
    using Cons.prems by (auto simp: pushHistorySlice_refines History_push_spec_def Let_def)
  show ?case
  proof (cases "es = []")
    case True
    then show ?thesis using step by simp
  next
    case False
    have fresh: "take 20 (?t # h) = [] \<or> hd (take 20 (?t # h)) \<noteq> TrimSpace (hd es)"
      using Cons.prems(2) False by (cases es) auto
    have "foldl pushHistorySlice (take 20 (?t # h)) es
            = take 20 (rev (map TrimSpace es) @ take 20 (?t # h))"
      using Cons.IH [OF _ _ False fresh] Cons.prems by simp
    then show ?thesis
      using step by (simp only: foldl_Cons take_append_take) simp
  qed
qed

text \<open>Trimming an entry padded with blanks gives what the blanks surround.\<close>

lemma blank_ascii: "blank c \<Longrightarrow> asciiSpace c"
  by (auto simp: blank_def asciiSpace_def)

lemma printable_plain:
  assumes "printable a"
  shows "\<not> asciiSpace a" and "\<not> space2 a b" and "\<not> space3 a b c"
    and "\<not> space2 b a" and "\<not> space3 c b a"
  using assms by (auto simp: printable_def asciiSpace_def space2_def space3_def)

lemma trimLeft_blank: "asciiSpace a \<Longrightarrow> trimLeftSpace (a # s) = trimLeftSpace s"
proof (cases s)
  case Nil
  then show "asciiSpace a \<Longrightarrow> trimLeftSpace (a # s) = trimLeftSpace s" by simp
next
  case (Cons b t)
  then show "asciiSpace a \<Longrightarrow> trimLeftSpace (a # s) = trimLeftSpace s" by (cases t) simp_all
qed

lemma trimLeft_printable: "printable a \<Longrightarrow> trimLeftSpace (a # s) = a # s"
proof (cases s)
  case Nil
  then show "printable a \<Longrightarrow> trimLeftSpace (a # s) = a # s"
    by (simp add: printable_plain)
next
  case (Cons b t)
  then show "printable a \<Longrightarrow> trimLeftSpace (a # s) = a # s"
    by (cases t) (simp_all add: printable_plain)
qed

lemma trimRev_blank: "asciiSpace a \<Longrightarrow> trimRevSpace (a # s) = trimRevSpace s"
proof (cases s)
  case Nil
  then show "asciiSpace a \<Longrightarrow> trimRevSpace (a # s) = trimRevSpace s" by simp
next
  case (Cons b t)
  then show "asciiSpace a \<Longrightarrow> trimRevSpace (a # s) = trimRevSpace s" by (cases t) simp_all
qed

lemma trimRev_printable: "printable a \<Longrightarrow> trimRevSpace (a # s) = a # s"
proof (cases s)
  case Nil
  then show "printable a \<Longrightarrow> trimRevSpace (a # s) = a # s"
    by (simp add: printable_plain)
next
  case (Cons b t)
  then show "printable a \<Longrightarrow> trimRevSpace (a # s) = a # s"
    by (cases t) (simp_all add: printable_plain)
qed

lemma trimLeft_blanks:
  assumes "\<forall>c \<in> set ws. blank c"
  shows "trimLeftSpace (ws @ s) = trimLeftSpace s"
  using assms by (induction ws) (simp_all add: trimLeft_blank blank_ascii)

lemma trimRev_blanks:
  assumes "\<forall>c \<in> set ws. blank c"
  shows "trimRevSpace (ws @ s) = trimRevSpace s"
  using assms by (induction ws) (simp_all add: trimRev_blank blank_ascii)

lemma TrimSpace_padded:
  assumes "\<forall>c \<in> set ws1. blank c" and "\<forall>c \<in> set ws2. blank c"
    and "core \<noteq> []" and "printable (hd core)" and "printable (last core)"
  shows "TrimSpace (ws1 @ core @ ws2) = core"
proof -
  obtain a t where c: "core = a # t" using assms(3) by (cases core) auto
  have l: "trimLeftSpace (ws1 @ core @ ws2) = core @ ws2"
    using assms(4) unfolding trimLeft_blanks [OF assms(1)] c by (simp add: trimLeft_printable)
  obtain z u where r: "rev core = z # u" and z: "z = last core"
    using assms(3) by (cases core rule: rev_cases) auto
  have b: "\<forall>c \<in> set (rev ws2). blank c" using assms(2) by simp
  have "trimRevSpace (rev (core @ ws2)) = rev core"
    using assms(5) z unfolding rev_append trimRev_blanks [OF b] r
    by (simp add: trimRev_printable)
  then show ?thesis unfolding TrimSpace_def l by simp
qed

lemma TrimSpace_blanks:
  assumes "\<forall>c \<in> set ws. blank c"
  shows "TrimSpace ws = []"
proof -
  have "trimLeftSpace (ws @ []) = trimLeftSpace []" using assms by (rule trimLeft_blanks)
  then show ?thesis by (simp add: TrimSpace_def)
qed

text \<open>
  C3 (as amended). History push trims the entry, returns the list unchanged when the
  trimmed entry is empty or equals the most recent element, and otherwise prepends it
  and cuts the list to 20. In particular an entry made of blanks only leaves the list
  unchanged, and an entry that is a text surrounded by blanks is pushed as that text.
  Pushing the same entry twice in a row leaves the length as the first push left it, and
  pushing 25 entries whose trimmed forms are non-empty and pairwise different leaves
  exactly the 20 most recent trimmed entries, most recent first.
\<close>

theorem C3_history_push:
  "pushHistorySlice h e = History_push_spec h e
   \<and> ((\<forall>c \<in> set ws1. blank c) \<and> (\<forall>c \<in> set ws2. blank c)
        \<longrightarrow> pushHistorySlice h (ws1 @ ws2) = h)
   \<and> ((\<forall>c \<in> set ws1. blank c) \<and> (\<forall>c \<in> set ws2. blank c)
        \<and> core \<noteq> [] \<and> printable (hd core) \<and> printable (last core)
        \<longrightarrow> pushHistorySlice h (ws1 @ core @ ws2)
              = (if h \<noteq> [] \<and> hd h = core then h else take 20 (core # h)))
   \<and> length (pushHistorySlice (pushHistorySlice h e) e) = length (pushHistorySlice h e)
   \<and> (length es = 25 \<and> distinct (map TrimSpace es) \<and> (\<forall>x \<in> set es. TrimSpace x \<noteq> [])
        \<longrightarrow> foldl pushHistorySlice h es = take 20 (rev (map TrimSpace es)))"
proof (intro conjI impI)
  show "pushHistorySlice h e = History_push_spec h e"
    by (rule pushHistorySlice_refines)
  show "length (pushHistorySlice (pushHistorySlice h e) e) = length (pushHistorySlice h e)"
    by (simp add: pushHistorySlice_refines push_spec_idem)
next
  assume "(\<forall>c \<in> set ws1. blank c) \<and> (\<forall>c \<in> set ws2. blank c)"
  then have "\<forall>c \<in> set (ws1 @ ws2). blank c" by auto
  then have "TrimSpace (ws1 @ ws2) = []" by (rule TrimSpace_blanks)
  then show "pushHistorySlice h (ws1 @ ws2) = h"
    by (simp add: pushHistorySlice_refines History_push_spec_def)
next
  assume "(\<forall>c \<in> set ws1. blank c) \<and> (\<forall>c \<in> set ws2. blank c)
        \<and> core \<noteq> [] \<and> printable (hd core) \<and> printable (last core)"
  then have t: "TrimSpace (ws1 @ core @ ws2) = core" and ne: "core \<noteq> []"
    using TrimSpace_padded [of ws1 ws2 core] by simp_all
  show "pushHistorySlice h (ws1 @ core @ ws2)
          = (if h \<noteq> [] \<and> hd h = core then h else take 20 (core # h))"
    unfolding pushHistorySlice_refines History_push_spec_def t using ne by (simp add: Let_def)
next
  assume a: "length es = 25 \<and> distinct (map TrimSpace es) \<and> (\<forall>x \<in> set es. TrimSpace x \<noteq> [])"
  then obtain x xs where es: "es = x # xs" and lxs: "length xs = 24"
    by (cases es) auto
  have ne: "\<forall>e \<in> set es. TrimSpace e \<noteq> []" and d: "distinct (map TrimSpace es)"
    using a by auto
  show "foldl pushHistorySlice h es = take 20 (rev (map TrimSpace es))"
  proof (cases "h = [] \<or> hd h \<noteq> TrimSpace (hd es)")
    case True
    have "foldl pushHistorySlice h es = take 20 (rev (map TrimSpace es) @ h)"
      using push_fold_fresh [OF ne d _ True] es by simp
    then show ?thesis using a by simp
  next
    case False
    then have noop: "pushHistorySlice h x = h"
      using es by (auto simp: pushHistorySlice_refines History_push_spec_def Let_def)
    have xs_ne: "xs \<noteq> []" using lxs by auto
    have fresh: "h = [] \<or> hd h \<noteq> TrimSpace (hd xs)"
      using False d es xs_ne by (cases xs) auto
    have "foldl pushHistorySlice h xs = take 20 (rev (map TrimSpace xs) @ h)"
      using push_fold_fresh [OF _ _ xs_ne fresh] ne d es by simp
    then show ?thesis using noop es lxs by simp
  qed
qed

lemma sample_trimmed:
  "map TrimSpace sampleEntries = map (\<lambda>c. [c]) ''abcdefghijklmnopqrstuvwxy''"
  by (simp add: sampleEntries_def TrimSpace_def asciiSpace_def space2_def space3_def)

theorem C3_history_push_witness:
  "pushHistorySlice [''a'', ''old''] ''  '' = [''a'', ''old'']
   \<and> pushHistorySlice [''a'', ''old''] (''  '' @ ''fix the bug'' @ '' '') = [''fix the bug'', ''a'', ''old'']
   \<and> pushHistorySlice [''a'', ''old''] ('' '' @ ''a'' @ ''  '') = [''a'', ''old'']
   \<and> foldl pushHistorySlice [''a'', ''old''] sampleEntries
       = map (\<lambda>c. [c]) ''yxwvutsrqponmlkjihgf''"
proof -
  have b: "(\<forall>c \<in> set '' ''. blank c) \<and> (\<forall>c \<in> set ''  ''. blank c)"
    by (simp add: blank_def)
  have b1: "(\<forall>c \<in> set ''  ''. blank c) \<and> (\<forall>c \<in> set '' ''. blank c)
        \<and> ''fix the bug'' \<noteq> [] \<and> printable (hd ''fix the bug'') \<and> printable (last ''fix the bug'')"
    by (simp add: blank_def printable_def)
  have b2: "(\<forall>c \<in> set '' ''. blank c) \<and> (\<forall>c \<in> set ''  ''. blank c)
        \<and> ''a'' \<noteq> [] \<and> printable (hd ''a'') \<and> printable (last ''a'')"
    by (simp add: blank_def printable_def)
  have s: "length sampleEntries = 25 \<and> distinct (map TrimSpace sampleEntries)
        \<and> (\<forall>x \<in> set sampleEntries. TrimSpace x \<noteq> [])"
  proof (intro conjI)
    show "length sampleEntries = 25" by (simp add: sampleEntries_def)
    show "distinct (map TrimSpace sampleEntries)" unfolding sample_trimmed by simp
    have "[] \<notin> set (map TrimSpace sampleEntries)" unfolding sample_trimmed by simp
    then show "\<forall>x \<in> set sampleEntries. TrimSpace x \<noteq> []" by force
  qed
  have w1: "pushHistorySlice [''a'', ''old''] ('' '' @ '' '') = [''a'', ''old'']"
    using C3_history_push [of "[''a'', ''old'']" "''a''" "'' ''" "'' ''" "''a''" sampleEntries]
    by (simp add: blank_def)
  have w2: "pushHistorySlice [''a'', ''old''] (''  '' @ ''fix the bug'' @ '' '')
      = (if [''a'', ''old''] \<noteq> [] \<and> hd [''a'', ''old''] = ''fix the bug'' then [''a'', ''old'']
         else take 20 (''fix the bug'' # [''a'', ''old'']))"
    using C3_history_push [of "[''a'', ''old'']" "''a''" "''  ''" "'' ''" "''fix the bug''" sampleEntries]
      b1 by blast
  have w3: "pushHistorySlice [''a'', ''old''] ('' '' @ ''a'' @ ''  '')
      = (if [''a'', ''old''] \<noteq> [] \<and> hd [''a'', ''old''] = ''a'' then [''a'', ''old'']
         else take 20 (''a'' # [''a'', ''old'']))"
    using C3_history_push [of "[''a'', ''old'']" "''a''" "'' ''" "''  ''" "''a''" sampleEntries]
      b2 by blast
  have w4: "foldl pushHistorySlice [''a'', ''old''] sampleEntries = take 20 (rev (map TrimSpace sampleEntries))"
    using C3_history_push [of "[''a'', ''old'']" "''a''" "'' ''" "'' ''" "''a''" sampleEntries]
      s by blast
  have "pushHistorySlice [''a'', ''old''] ''  '' = [''a'', ''old'']" using w1 by simp
  moreover have "pushHistorySlice [''a'', ''old''] (''  '' @ ''fix the bug'' @ '' '')
      = [''fix the bug'', ''a'', ''old'']"
    unfolding w2 by simp
  moreover have "pushHistorySlice [''a'', ''old''] ('' '' @ ''a'' @ ''  '') = [''a'', ''old'']"
    unfolding w3 by simp
  moreover have "foldl pushHistorySlice [''a'', ''old''] sampleEntries
       = map (\<lambda>c. [c]) ''yxwvutsrqponmlkjihgf''"
    unfolding w4 sample_trimmed by simp
  ultimately show ?thesis by (intro conjI)
qed

text \<open>
  The claim as stated fails for 25 different entries of which two have the same trimmed
  form: after \<^verbatim>\<open>a\<close> to \<^verbatim>\<open>x\<close>, the entry \<^verbatim>\<open>x\<close> followed by a blank is not pushed, and
  the history holds \<^verbatim>\<open>x\<close> down to \<^verbatim>\<open>e\<close>, which are not the 20 most recent entries.
\<close>

theorem C3_counterexample:
  "length nearEntries = 25 \<and> distinct nearEntries
   \<and> foldl pushHistorySlice [] nearEntries = map (\<lambda>c. [c]) ''xwvutsrqponmlkjihgfe''
   \<and> take 20 (rev nearEntries) = ''x '' # map (\<lambda>c. [c]) ''xwvutsrqponmlkjihgf''
   \<and> take 20 (rev (map TrimSpace nearEntries)) = ''x'' # map (\<lambda>c. [c]) ''xwvutsrqponmlkjihgf''"
proof -
  let ?first = "map (\<lambda>c. [c]) ''abcdefghijklmnopqrstuvwx''"
  have t: "map TrimSpace ?first = ?first" "TrimSpace ''x '' = ''x''"
    by (simp_all add: TrimSpace_def asciiSpace_def space2_def space3_def)
  have ne: "\<forall>e \<in> set ?first. TrimSpace e \<noteq> []"
  proof -
    have "[] \<notin> set (map TrimSpace ?first)" unfolding t by simp
    then show ?thesis by force
  qed
  have d: "distinct (map TrimSpace ?first)" unfolding t by simp
  have f: "foldl pushHistorySlice [] ?first = take 20 (rev (map TrimSpace ?first) @ [])"
    by (rule push_fold_fresh [OF ne d]) simp_all
  have f1: "foldl pushHistorySlice [] ?first = map (\<lambda>c. [c]) ''xwvutsrqponmlkjihgfe''"
    unfolding f t by simp
  have last: "pushHistorySlice (map (\<lambda>c. [c]) ''xwvutsrqponmlkjihgfe'') ''x ''
                = map (\<lambda>c. [c]) ''xwvutsrqponmlkjihgfe''"
    unfolding pushHistorySlice_refines History_push_spec_def t(2) by simp
  have "foldl pushHistorySlice [] nearEntries = map (\<lambda>c. [c]) ''xwvutsrqponmlkjihgfe''"
    unfolding nearEntries_def foldl_append f1 using last by simp
  moreover have "length nearEntries = 25" "distinct nearEntries"
    by (simp_all add: nearEntries_def)
  moreover have "take 20 (rev nearEntries) = ''x '' # map (\<lambda>c. [c]) ''xwvutsrqponmlkjihgf''"
    by (simp add: nearEntries_def)
  moreover have "take 20 (rev (map TrimSpace nearEntries)) = ''x'' # map (\<lambda>c. [c]) ''xwvutsrqponmlkjihgf''"
    by (simp add: nearEntries_def TrimSpace_def asciiSpace_def space2_def space3_def)
  ultimately show ?thesis by (intro conjI)
qed
section \<open>Properties of the Line Buffer\<close>

lemma insert_backspace_byte:
  assumes "validCursor rows cur" and "length s = 1"
  shows "\<exists>b. insertText s (rows, cur) = Some b \<and> validCursor (fst b) (snd b)
             \<and> backspaceChar b = Some (rows, cur)"
  using assms
  by (auto simp: validCursor_def insertText_def backspaceChar_def Let_def)

lemma encodeRune_ascii: "r < 128 \<Longrightarrow> length (stringOfRunes [r]) = 1"
  by (simp add: stringOfRunes_def encodeRune_def)

lemma runKeys_append:
  "runKeys ks m (xs @ ys) = (case runKeys ks m xs of None \<Rightarrow> None | Some m1 \<Rightarrow> runKeys ks m1 ys)"
  by (induction xs arbitrary: m) (auto split: option.splits)

lemma setup_rune_step:
  assumes "screen m = screenSetup" and "focus m = focusPrompt"
  shows "Update ks m (KeyMsg (runeKey r)) =
           noCmd (setInput m (insertText (stringOfRunes [r]) (input m, cursor m)))"
  using assms by (simp add: Update_def runeKey_def setupRunes_def Let_def)

lemma setup_backspace_step:
  assumes "screen m = screenSetup" and "focus m = focusPrompt"
  shows "Update ks m (KeyMsg backspaceKey) =
           noCmd (setInput m (backspaceChar (input m, cursor m)))"
  using assms by (simp add: Update_def backspaceKey_def setupBackspace_def)

lemma setInput_same: "setInput m (Some (input m, cursor m)) = Some m"
  by (simp add: setInput_def)

lemma rune_then_backspace:
  assumes "screen m = screenSetup" and "focus m = focusPrompt"
    and "validCursor (input m) (cursor m)" and "r < 128"
  shows "\<exists>m1. Update ks m (KeyMsg (runeKey r)) = Some (m1, None)
              \<and> screen m1 = screenSetup \<and> focus m1 = focusPrompt
              \<and> validCursor (input m1) (cursor m1)
              \<and> Update ks m1 (KeyMsg backspaceKey) = Some (m, None)"
proof -
  obtain b where b: "insertText (stringOfRunes [r]) (input m, cursor m) = Some b"
      "validCursor (fst b) (snd b)" "backspaceChar b = Some (input m, cursor m)"
    using insert_backspace_byte [OF assms(3) encodeRune_ascii [OF assms(4)]] by blast
  let ?m1 = "m\<lparr>input := fst b, cursor := snd b\<rparr>"
  have u1: "Update ks m (KeyMsg (runeKey r)) = Some (?m1, None)"
    using assms(1,2) b(1) by (simp add: setup_rune_step noCmd_def setInput_def split_beta)
  have u2: "Update ks ?m1 (KeyMsg backspaceKey) = Some (m, None)"
    using assms(1,2) b(3) by (simp add: setup_backspace_step noCmd_def setInput_def)
  show ?thesis using u1 u2 b(2) assms(1,2) by simp
qed

text \<open>
  C6 (as amended). On the Setup screen with the focus on the prompt and the cursor on a
  row and within it, typing any sequence of runes below 128 (those that UTF-8 encodes in
  one byte) one at a time and then pressing Backspace as many times gives back the
  session as it was: the same rows, the same cursor.
\<close>

theorem C6_insert_backspace_roundtrip:
  assumes "screen m = screenSetup" and "focus m = focusPrompt"
    and "validCursor (input m) (cursor m)"
    and "\<forall>r \<in> set rs. r < 128"
  shows "runKeys ks m (map runeKey rs @ replicate (length rs) backspaceKey) = Some m"
  using assms
proof (induction rs arbitrary: m)
  case Nil
  then show ?case by simp
next
  case (Cons r rs)
  have r: "r < 128" and rs: "\<forall>r \<in> set rs. r < 128" using Cons.prems(4) by auto
  obtain m1 where m1: "Update ks m (KeyMsg (runeKey r)) = Some (m1, None)"
      "screen m1 = screenSetup" "focus m1 = focusPrompt" "validCursor (input m1) (cursor m1)"
      "Update ks m1 (KeyMsg backspaceKey) = Some (m, None)"
    using rune_then_backspace [OF Cons.prems(1-3) r] by blast
  have inner: "runKeys ks m1 (map runeKey rs @ replicate (length rs) backspaceKey) = Some m1"
    using Cons.IH [OF m1(2-4) rs] .
  have "replicate (length (r # rs)) backspaceKey = replicate (length rs) backspaceKey @ [backspaceKey]"
    by (simp add: replicate_append_same)
  then have "runKeys ks m (map runeKey (r # rs) @ replicate (length (r # rs)) backspaceKey)
        = runKeys ks m (runeKey r # (map runeKey rs @ replicate (length rs) backspaceKey) @ [backspaceKey])"
    by simp
  also have "\<dots> = runKeys ks m1 ((map runeKey rs @ replicate (length rs) backspaceKey) @ [backspaceKey])"
    using m1(1) by simp
  also have "\<dots> = Some m"
    using inner m1(5) by (simp only: runKeys_append) simp
  finally show ?case .
qed

theorem C6_insert_backspace_roundtrip_witness:
  "runKeys [] (initialModel ''feature'' [] False)
     (map runeKey [107, 97, 108] @ replicate (length [107, 97, 108 :: nat]) backspaceKey)
   = Some (initialModel ''feature'' [] False)"
proof -
  have "screen (initialModel ''feature'' [] False) = screenSetup"
    and "focus (initialModel ''feature'' [] False) = focusPrompt"
    and "validCursor (input (initialModel ''feature'' [] False)) (cursor (initialModel ''feature'' [] False))"
    and "\<forall>r \<in> set [107, 97, 108 :: nat]. r < 128"
    by (simp_all add: initialModel_def validCursor_def)
  then show ?thesis by (rule C6_insert_backspace_roundtrip)
qed

text \<open>
  The claim as stated fails for a rune outside ASCII: typing U+00E9 inserts the two bytes
  C3 A9 and moves the cursor by two; one Backspace removes one byte.
\<close>

theorem C6_counterexample:
  "runKeys [] (initialModel ''feature'' [] False) (map runeKey [233] @ replicate (length [233 :: nat]) backspaceKey)
     = Some ((initialModel ''feature'' [] False)\<lparr>input := [[CHR 0xC3]], cursor := \<lparr>row = 0, col = 1\<rparr>\<rparr>)
   \<and> (initialModel ''feature'' [] False)\<lparr>input := [[CHR 0xC3]], cursor := \<lparr>row = 0, col = 1\<rparr>\<rparr>
       \<noteq> initialModel ''feature'' [] False"
proof -
  have e: "stringOfRunes [233] = [CHR 0xC3, CHR 0xA9]"
    by code_simp
  have s: "screen (initialModel ''feature'' [] False) = screenSetup"
      "focus (initialModel ''feature'' [] False) = focusPrompt"
    by (simp_all add: initialModel_def)
  let ?m1 = "(initialModel ''feature'' [] False)\<lparr>input := [[CHR 0xC3, CHR 0xA9]], cursor := \<lparr>row = 0, col = 2\<rparr>\<rparr>"
  have u1: "Update [] (initialModel ''feature'' [] False) (KeyMsg (runeKey 233)) = Some (?m1, None)"
    by (simp add: setup_rune_step [OF s] e noCmd_def setInput_def insertText_def)
       (simp add: initialModel_def)
  have s1: "screen ?m1 = screenSetup" "focus ?m1 = focusPrompt"
    using s by simp_all
  have u2: "Update [] ?m1 (KeyMsg backspaceKey)
      = Some ((initialModel ''feature'' [] False)\<lparr>input := [[CHR 0xC3]], cursor := \<lparr>row = 0, col = 1\<rparr>\<rparr>, None)"
    by (simp add: setup_backspace_step [OF s1] noCmd_def setInput_def backspaceChar_def)
  have ne: "(initialModel ''feature'' [] False)\<lparr>input := [[CHR 0xC3]], cursor := \<lparr>row = 0, col = 1\<rparr>\<rparr>
       \<noteq> initialModel ''feature'' [] False"
  proof
    assume "(initialModel ''feature'' [] False)\<lparr>input := [[CHR 0xC3]], cursor := \<lparr>row = 0, col = 1\<rparr>\<rparr>
       = initialModel ''feature'' [] False"
    then have "input ((initialModel ''feature'' [] False)\<lparr>input := [[CHR 0xC3]], cursor := \<lparr>row = 0, col = 1\<rparr>\<rparr>)
       = input (initialModel ''feature'' [] False)" by simp
    then show False by (simp add: initialModel_def)
  qed
  show ?thesis using u1 u2 ne by simp
qed

section \<open>Properties of the Selection Table\<close>























section \<open>Properties of the Autocomplete Engine\<close>

lemma son_prefix:
  "HasPrefix ''sonnet'' ''son''" "HasPrefix ''sonnet-2'' ''son''" "\<not> HasPrefix ''gpt'' ''son''"
  by (simp_all add: HasPrefix_def)

lemma ne_commands:
  "filter (\<lambda>c. HasPrefix c ''/ne'') [''/bail'', ''/next'', ''/wrap''] = [''/next'']"
  by (simp add: HasPrefix_def)

text \<open>
  C7. With the provisioned instance labels sonnet, sonnet-2 and gpt (the keys of
  \<^verbatim>\<open>modelToWorktree\<close>, visited in any order), the option function on \<^verbatim>\<open>@son\<close> returns
  @sonnet and @sonnet-2, each once and nothing else, and on \<^verbatim>\<open>/ne\<close> it returns exactly
  /next.
\<close>

theorem C7_autocomplete_options:
  assumes "dom (modelToWorktree m) = {''sonnet'', ''sonnet-2'', ''gpt''}"
    and "set ks = dom (modelToWorktree m)" and "distinct ks"
  shows "(\<exists>opts. getAutocompleteOptions ks m ''@son'' = Some opts
               \<and> set opts = {''@sonnet'', ''@sonnet-2''} \<and> distinct opts)
         \<and> getAutocompleteOptions ks m ''/ne'' = Some [''/next'']"
proof -
  have ks: "set ks = {''sonnet'', ''sonnet-2'', ''gpt''}" using assms(1,2) by simp
  have ne: "length ks \<noteq> 0"
  proof
    assume "length ks = 0"
    then have "set ks = {}" by simp
    then show False using ks by simp
  qed
  let ?opts = "map (\<lambda>name. ''@'' @ name) (filter (\<lambda>name. HasPrefix name ''son'') ks)"
  have o: "getAutocompleteOptions ks m ''@son'' = Some ?opts"
    using ne by (simp add: getAutocompleteOptions_def)
  have f: "{name \<in> set ks. HasPrefix name ''son''} = {''sonnet'', ''sonnet-2''}"
    unfolding ks using son_prefix by auto
  have "set ?opts = (\<lambda>name. ''@'' @ name) ` {name \<in> set ks. HasPrefix name ''son''}"
    by simp
  also have "\<dots> = (\<lambda>name. ''@'' @ name) ` {''sonnet'', ''sonnet-2''}"
    by (simp only: f)
  also have "\<dots> = {''@sonnet'', ''@sonnet-2''}"
    by simp
  finally have s: "set ?opts = {''@sonnet'', ''@sonnet-2''}" .
  have d: "distinct ?opts"
    using assms(3) by (simp add: distinct_map inj_on_def)
  have "\<exists>opts. getAutocompleteOptions ks m ''@son'' = Some opts
               \<and> set opts = {''@sonnet'', ''@sonnet-2''} \<and> distinct opts"
    using o s d by blast
  moreover have "getAutocompleteOptions ks m ''/ne'' = Some [''/next'']"
    by (simp add: getAutocompleteOptions_def HasPrefix_def)
  ultimately show ?thesis by (rule conjI)
qed

theorem C7_autocomplete_options_witness:
  "(\<exists>opts. getAutocompleteOptions [''gpt'', ''sonnet-2'', ''sonnet''] threeInstances ''@son'' = Some opts
          \<and> set opts = {''@sonnet'', ''@sonnet-2''} \<and> distinct opts)
   \<and> getAutocompleteOptions [''gpt'', ''sonnet-2'', ''sonnet''] threeInstances ''/ne'' = Some [''/next'']"
proof -
  have a: "dom (modelToWorktree threeInstances) = {''sonnet'', ''sonnet-2'', ''gpt''}"
    by (auto simp: threeInstances_def split: if_splits)
  have b: "set [''gpt'', ''sonnet-2'', ''sonnet''] = dom (modelToWorktree threeInstances)"
    unfolding a by (simp add: insert_commute)
  have c: "distinct [''gpt'', ''sonnet-2'', ''sonnet'']" by simp
  show ?thesis using C7_autocomplete_options [OF a b c] .
qed

section \<open>Properties of Launch\<close>



lemma openLoop_step:
  assumes "currentProvider m = Some p"
  shows "openLoop w m bn k bc (b # mods) (effs, r) =
     openLoop w m bn (Suc k) (bc(b := bc b + 1)) mods
       (effs @ [SplitWindow (identifierFor w m (instanceLabelOf b (bc b + 1))) bn (p @ ''/'' @ b)
                  (Join (input m) [CHR 0x0A])],
        case splitWindow w k of
          None \<Rightarrow> r\<lparr>err := Some errTmux\<rparr>
        | Some out \<Rightarrow>
            r\<lparr>count := count r + 1,
              paneIDs := paneIDs r @ [TrimSpace out],
              worktrees := worktrees r @ [identifierFor w m (instanceLabelOf b (bc b + 1))],
              modelNames := modelNames r @ [instanceLabelOf b (bc b + 1)],
              providersOpened := providersOpened r @ [p],
              baseModels := baseModels r @ [b]\<rparr>)"
  using assms by (simp add: Let_def split: option.splits)








section \<open>Properties of the Iteration screen\<close>

lemma currentProvider_frame:
  assumes "providers m1 = providers m" and "providerIndex m1 = providerIndex m"
  shows "currentProvider m1 = currentProvider m"
  unfolding currentProvider_def assms by (rule refl)

lemma selectedModels_frame:
  assumes "providers m1 = providers m" and "providerIndex m1 = providerIndex m"
    and "selected m1 = selected m" and "models m1 = models m"
  shows "selectedModels m1 = selectedModels m"
  unfolding selectedModels_def currentProvider_frame [OF assms(1,2)] assms(3,4) by (rule refl)

lemma enter_on_iteration:
  assumes "screen m = screenIteration"
  shows "Update ks m (KeyMsg enterKey) = iterationEnter m"
  using assms by (simp add: Update_def updateIteration_def enterKey_def)

lemma popup_closed:
  assumes "popupClosed m"
  shows "(autocompleteActive m \<and> length (autocompleteOptions m) > 0) = False"
  using assms by (auto simp: popupClosed_def)

lemma hasPrefix_append: "HasPrefix (p @ s) p"
  by (simp add: HasPrefix_def)

lemma trimPrefix_append: "TrimPrefix (p @ s) p = s"
  by (simp add: TrimPrefix_def HasPrefix_def)

lemma enter_next:
  assumes "screen m = screenIteration" and "popupClosed m"
    and "currentLine m = ''/next '' @ arg" and "TrimSpace arg = label" and "label \<noteq> []"
  shows "Update ks m (KeyMsg enterKey) =
           Some (m\<lparr>screen := screenProgress, progressMsg := progressText label\<rparr>,
                 Some (nextCmd (m\<lparr>screen := screenProgress, progressMsg := progressText label\<rparr>) label))"
proof -
  have nb: "currentLine m \<noteq> ''/bail''" using assms(3) by simp
  have hp: "HasPrefix (currentLine m) ''/next ''"
    unfolding assms(3) by (rule hasPrefix_append)
  have tp: "TrimSpace (TrimPrefix (currentLine m) ''/next '') = label"
    unfolding assms(3) trimPrefix_append by (rule assms(4))
  show ?thesis
    unfolding enter_on_iteration [OF assms(1)] iterationEnter_def popup_closed [OF assms(2)]
    using nb hp tp assms(5) by (simp add: Let_def)
qed

lemma enter_wrap:
  assumes "screen m = screenIteration" and "popupClosed m"
    and "currentLine m = ''/wrap '' @ arg" and "TrimSpace arg = label" and "label \<noteq> []"
  shows "Update ks m (KeyMsg enterKey) =
           Some (m\<lparr>screen := screenProgress, progressMsg := progressText label\<rparr>,
                 Some (wrapCmd (m\<lparr>screen := screenProgress, progressMsg := progressText label\<rparr>) label))"
proof -
  have nb: "currentLine m \<noteq> ''/bail''" using assms(3) by simp
  have nn: "\<not> HasPrefix (currentLine m) ''/next ''"
    unfolding assms(3) by (simp add: HasPrefix_def)
  have hp: "HasPrefix (currentLine m) ''/wrap ''"
    unfolding assms(3) by (rule hasPrefix_append)
  have tp: "TrimSpace (TrimPrefix (currentLine m) ''/wrap '') = label"
    unfolding assms(3) trimPrefix_append by (rule assms(4))
  show ?thesis
    unfolding enter_on_iteration [OF assms(1)] iterationEnter_def popup_closed [OF assms(2)]
    using nb nn hp tp assms(5) by (simp add: Let_def)
qed

lemma mergeCmd_unknown:
  assumes "modelToWorktree m label = None"
  shows "mergeCmd final w m label =
           Some (if insideTmux w then [DisplayMessage] else [], Some bailCompleteMsg)"
  using assms by (simp add: mergeCmd_def)

text \<open>
  C10. On the Iteration screen, submitting \<^verbatim>\<open>/next label\<close> or \<^verbatim>\<open>/wrap label\<close> with a label
  that has no worktree starts the command, which does nothing but show a status message
  (no commit, merge or push, no pane killed, no worktree or branch removed) and reports
  \<^verbatim>\<open>bailCompleteMsg\<close>; on that message \<open>Update\<close> returns \<^verbatim>\<open>tea.Quit\<close>. The registry and the
  lists of created panes and worktrees are as they were.
\<close>

theorem C10_unknown_label_quits:
  assumes "screen m = screenIteration" and "popupClosed m"
    and "currentLine m = ''/next '' @ arg \<or> currentLine m = ''/wrap '' @ arg"
    and "TrimSpace arg = label" and "label \<noteq> []"
    and "modelToWorktree m label = None"
  shows "\<exists>m1 c effs.
           Update ks m (KeyMsg enterKey) = Some (m1, Some c)
           \<and> (c = nextCmd m1 label \<or> c = wrapCmd m1 label)
           \<and> runCmd w c = Some (effs, Some bailCompleteMsg)
           \<and> set effs \<subseteq> {DisplayMessage}
           \<and> Update ks m1 bailCompleteMsg = Some (m1, Some Quit)
           \<and> createdPanes m1 = createdPanes m
           \<and> createdWorktrees m1 = createdWorktrees m
           \<and> modelToWorktree m1 = modelToWorktree m
           \<and> modelToPaneID m1 = modelToPaneID m"
proof -
  let ?m1 = "m\<lparr>screen := screenProgress, progressMsg := progressText label\<rparr>"
  have un: "modelToWorktree ?m1 label = None" using assms(6) by simp
  have quit: "Update ks ?m1 bailCompleteMsg = Some (?m1, Some Quit)"
    by (simp add: Update_def)
  from assms(3) show ?thesis
  proof
    assume l: "currentLine m = ''/next '' @ arg"
    have u: "Update ks m (KeyMsg enterKey) = Some (?m1, Some (nextCmd ?m1 label))"
      by (rule enter_next [OF assms(1,2) l assms(4,5)])
    have r: "runCmd w (nextCmd ?m1 label)
        = Some (if insideTmux w then [DisplayMessage] else [], Some bailCompleteMsg)"
      by (simp only: runCmd.simps run_nextCmd_def mergeCmd_unknown [OF un])
    show ?thesis
      by (intro exI [of _ ?m1] exI [of _ "nextCmd ?m1 label"]
          exI [of _ "if insideTmux w then [DisplayMessage] else []"] conjI;
          (rule u r quit | auto))
  next
    assume l: "currentLine m = ''/wrap '' @ arg"
    have u: "Update ks m (KeyMsg enterKey) = Some (?m1, Some (wrapCmd ?m1 label))"
      by (rule enter_wrap [OF assms(1,2) l assms(4,5)])
    have r: "runCmd w (wrapCmd ?m1 label)
        = Some (if insideTmux w then [DisplayMessage] else [], Some bailCompleteMsg)"
      by (simp only: runCmd.simps run_wrapCmd_def mergeCmd_unknown [OF un])
    show ?thesis
      by (intro exI [of _ ?m1] exI [of _ "wrapCmd ?m1 label"]
          exI [of _ "if insideTmux w then [DisplayMessage] else []"] conjI;
          (rule u r quit | auto))
  qed
qed

lemma sample_line:
  "currentLine (commandSession ''/next opus'') = ''/next '' @ ''opus''"
  "currentLine (commandSession ''/next sonnet-2'') = ''/next '' @ ''sonnet-2''"
  "currentLine (commandSession ''/wrap sonnet-2'') = ''/wrap '' @ ''sonnet-2''"
  "currentLine (commandSession ''@opus try again'') = ''@'' @ ''opus'' @ '' '' @ ''try again''"
  "currentLine (commandSession ''@gpt try again'') = ''@'' @ ''gpt'' @ '' '' @ ''try again''"
  "currentLine (commandSession ''@gpt  try again'') = ''@'' @ ''gpt'' @ '' '' @ '' try again''"
  by (simp_all add: currentLine_def commandSession_def threeInstances_def TrimSpace_def
      asciiSpace_def space2_def space3_def)

lemma sample_trim:
  "TrimSpace ''opus'' = ''opus''" "TrimSpace ''sonnet-2'' = ''sonnet-2''"
  by (simp_all add: TrimSpace_def asciiSpace_def space2_def space3_def)

lemma sample_session:
  "screen (commandSession line) = screenIteration" "popupClosed (commandSession line)"
  by (simp_all add: commandSession_def threeInstances_def initialModel_def popupClosed_def)

theorem C10_unknown_label_quits_witness:
  "\<exists>m1 c effs.
     Update [] (commandSession ''/next opus'') (KeyMsg enterKey) = Some (m1, Some c)
     \<and> (c = nextCmd m1 ''opus'' \<or> c = wrapCmd m1 ''opus'')
     \<and> runCmd goodWorld c = Some (effs, Some bailCompleteMsg)
     \<and> set effs \<subseteq> {DisplayMessage}
     \<and> Update [] m1 bailCompleteMsg = Some (m1, Some Quit)
     \<and> createdPanes m1 = createdPanes (commandSession ''/next opus'')
     \<and> createdWorktrees m1 = createdWorktrees (commandSession ''/next opus'')
     \<and> modelToWorktree m1 = modelToWorktree (commandSession ''/next opus'')
     \<and> modelToPaneID m1 = modelToPaneID (commandSession ''/next opus'')"
proof -
  have l: "currentLine (commandSession ''/next opus'') = ''/next '' @ ''opus''
         \<or> currentLine (commandSession ''/next opus'') = ''/wrap '' @ ''opus''"
    using sample_line(1) by simp
  have n: "''opus'' \<noteq> []" by simp
  have u: "modelToWorktree (commandSession ''/next opus'') ''opus'' = None"
    by (simp add: commandSession_def threeInstances_def)
  show ?thesis
    by (rule C10_unknown_label_quits [OF sample_session l sample_trim(1) n u])
qed

section \<open>Properties of Next and Wrap\<close>

lemma mergeCmd_registered:
  assumes "insideTmux w" and "modelToWorktree m label = Some wt"
    and "currentProvider m = Some p" and "getwd w = Some (dir, base)"
  shows "\<exists>e0. (\<forall>e \<in> set e0. \<not> isCleanup e \<and> \<not> isVersionControl e)
          \<and> mergeCmd final w m label =
              Some (e0 @ fst (mergeSteps final w m label wt dir),
                    Some (snd (mergeSteps final w m label wt dir)))"
proof -
  obtain prov bm where pb:
    "(if stringAt (instanceProvider m) label = [] \<or> stringAt (instanceBaseModel m) label = []
      then (case currentProvider m of None \<Rightarrow> None | Some p \<Rightarrow> Some (p, label))
      else Some (stringAt (instanceProvider m) label, stringAt (instanceBaseModel m) label))
     = Some (prov, bm)"
    using assms(3) by (cases "stringAt (instanceProvider m) label = [] \<or> stringAt (instanceBaseModel m) label = []") simp_all
  let ?e0 = "[IncrementChoice prov bm] @ (if incrementChoiceOK w then [] else [DisplayMessage])"
  have "mergeCmd final w m label =
              Some (?e0 @ fst (mergeSteps final w m label wt dir),
                    Some (snd (mergeSteps final w m label wt dir)))"
    unfolding mergeCmd_def using assms(1,2,4) pb
    by (simp add: Let_def split_beta)
  moreover have "\<forall>e \<in> set ?e0. \<not> isCleanup e \<and> \<not> isVersionControl e" by simp
  ultimately show ?thesis by blast
qed

lemma cleanupEffects_done: "cleanupDone dir m (xs @ cleanupEffects dir m @ ys)"
  by (auto simp: cleanupDone_def cleanupEffects_def)

lemma mergeSteps_merged:
  assumes "gitAddOK w" and "gitCheckoutOK w" and "gitMergeOK w"
  shows "snd (mergeSteps final w m label wt dir) = final"
    and "cleanupDone dir m (e0 @ fst (mergeSteps final w m label wt dir))"
    and "GitCheckout (TrimSpace (branch m)) \<in> set (fst (mergeSteps final w m label wt dir))"
proof -
  let ?pre = "[GitAdd dir wt] @
     ([GitCommit dir wt (commitMessage m label)] @ (if gitCommitOK w then [] else [DisplayMessage])) @
     [GitCheckout (TrimSpace (branch m))] @ [GitMerge wt label] @
     ([GitPush (TrimSpace (branch m))] @ (if gitPushOK w then [] else [DisplayMessage]))"
  have f: "mergeSteps final w m label wt dir = (?pre @ cleanupEffects dir m @ [DisplayMessage], final)"
    using assms by (simp add: mergeSteps_def Let_def)
  show "snd (mergeSteps final w m label wt dir) = final" by (simp add: f)
  have "cleanupDone dir m ((e0 @ ?pre) @ cleanupEffects dir m @ [DisplayMessage])"
    by (rule cleanupEffects_done)
  then show "cleanupDone dir m (e0 @ fst (mergeSteps final w m label wt dir))"
    by (simp add: f)
  show "GitCheckout (TrimSpace (branch m)) \<in> set (fst (mergeSteps final w m label wt dir))"
    by (simp add: f)
qed

lemma mergeSteps_aborted:
  assumes "gitAddOK w" and "\<not> gitCheckoutOK w \<or> \<not> gitMergeOK w"
  shows "snd (mergeSteps final w m label wt dir) = bailCompleteMsg"
    and "\<forall>e \<in> set (fst (mergeSteps final w m label wt dir)). \<not> isCleanup e"
    and "GitCheckout (TrimSpace (branch m)) \<in> set (fst (mergeSteps final w m label wt dir))"
  using assms by (auto simp: mergeSteps_def Let_def)

text \<open>
  C2 (as amended). During Next or Wrap on a registered label, when the commit steps have
  been reached and staged, the feature branch is checked out; once that checkout and the
  merge have both succeeded, the clean-up of all instances is reached whatever the push
  does: every created pane is killed, every created worktree removed and its branch
  deleted. If the checkout fails, or if the merge fails, the command reports
  \<^verbatim>\<open>bailCompleteMsg\<close> having killed no pane and removed no worktree or branch.
\<close>

theorem C2_cleanup_after_merge:
  assumes "insideTmux w" and "modelToWorktree m label = Some wt"
    and "currentProvider m = Some p" and "getwd w = Some (dir, base)" and "gitAddOK w"
    and "run = run_nextCmd \<or> run = run_wrapCmd"
  shows "\<exists>effs r.
           run w m label = Some (effs, Some r)
           \<and> GitCheckout (TrimSpace (branch m)) \<in> set effs
           \<and> (gitCheckoutOK w \<and> gitMergeOK w
                \<longrightarrow> cleanupDone dir m effs \<and> (r = nextCompleteMsg \<or> r = wrapCompleteMsg))
           \<and> (\<not> gitCheckoutOK w \<or> \<not> gitMergeOK w
                \<longrightarrow> (\<forall>e \<in> set effs. \<not> isCleanup e) \<and> r = bailCompleteMsg)"
proof -
  obtain final where final: "run = mergeCmd final" "final = nextCompleteMsg \<or> final = wrapCompleteMsg"
    using assms(6) by (auto simp: run_nextCmd_def run_wrapCmd_def fun_eq_iff)
  obtain e0 where e0: "\<forall>e \<in> set e0. \<not> isCleanup e \<and> \<not> isVersionControl e"
      "mergeCmd final w m label =
         Some (e0 @ fst (mergeSteps final w m label wt dir),
               Some (snd (mergeSteps final w m label wt dir)))"
    using mergeCmd_registered [OF assms(1-4)] by blast
  let ?effs = "e0 @ fst (mergeSteps final w m label wt dir)"
  let ?r = "snd (mergeSteps final w m label wt dir)"
  have r: "run w m label = Some (?effs, Some ?r)" using final(1) e0(2) by simp
  have co: "GitCheckout (TrimSpace (branch m)) \<in> set ?effs"
    using mergeSteps_merged(3) [OF assms(5)] mergeSteps_aborted(3) [OF assms(5)]
    by (cases "gitCheckoutOK w \<and> gitMergeOK w") auto
  have ok: "gitCheckoutOK w \<and> gitMergeOK w
      \<longrightarrow> cleanupDone dir m ?effs \<and> (?r = nextCompleteMsg \<or> ?r = wrapCompleteMsg)"
    using mergeSteps_merged(1,2) [OF assms(5)] final(2) by auto
  have ab: "\<not> gitCheckoutOK w \<or> \<not> gitMergeOK w
      \<longrightarrow> (\<forall>e \<in> set ?effs. \<not> isCleanup e) \<and> ?r = bailCompleteMsg"
    using mergeSteps_aborted(1,2) [OF assms(5)] e0(1) by auto
  show ?thesis using r co ok ab by blast
qed

lemma sample_registered:
  "modelToWorktree threeInstances ''sonnet-2'' = Some ''repo_feature_sonnet-2''"
  "currentProvider threeInstances = Some ''github-copilot''"
  by (simp_all add: threeInstances_def initialModel_def currentProvider_def)

theorem C2_cleanup_after_merge_witness:
  "\<exists>effs r.
     run_wrapCmd pushFails threeInstances ''sonnet-2'' = Some (effs, Some r)
     \<and> GitCheckout (TrimSpace (branch threeInstances)) \<in> set effs
     \<and> cleanupDone ''/home/dev'' threeInstances effs
     \<and> r = wrapCompleteMsg"
proof -
  have w: "insideTmux pushFails" "getwd pushFails = Some (''/home/dev'', ''repo'')"
      "gitAddOK pushFails" "gitCheckoutOK pushFails" "gitMergeOK pushFails"
    by (simp_all add: pushFails_def goodWorld_def)
  have run: "run_wrapCmd = run_nextCmd \<or> run_wrapCmd = run_wrapCmd" by simp
  obtain effs r where e:
      "run_wrapCmd pushFails threeInstances ''sonnet-2'' = Some (effs, Some r)"
      "GitCheckout (TrimSpace (branch threeInstances)) \<in> set effs"
      "cleanupDone ''/home/dev'' threeInstances effs"
      "r = nextCompleteMsg \<or> r = wrapCompleteMsg"
    using C2_cleanup_after_merge [OF w(1) sample_registered w(2,3) run] w(4,5) by blast
  have "snd (mergeSteps wrapCompleteMsg pushFails threeInstances ''sonnet-2'' ''repo_feature_sonnet-2'' ''/home/dev'')
      = wrapCompleteMsg"
    by (rule mergeSteps_merged(1) [OF w(3,4,5)])
  moreover obtain e0 where "run_wrapCmd pushFails threeInstances ''sonnet-2'' =
         Some (e0 @ fst (mergeSteps wrapCompleteMsg pushFails threeInstances ''sonnet-2'' ''repo_feature_sonnet-2'' ''/home/dev''),
               Some (snd (mergeSteps wrapCompleteMsg pushFails threeInstances ''sonnet-2'' ''repo_feature_sonnet-2'' ''/home/dev'')))"
    unfolding run_wrapCmd_def using mergeCmd_registered [OF w(1) sample_registered w(2)] by blast
  ultimately have "r = wrapCompleteMsg" using e(1) by simp
  then show ?thesis using e by blast
qed

text \<open>
  The claim as stated fails when the merge fails after a successful checkout: the command
  returns before the clean-up loops, and the panes and worktrees stay.
\<close>

theorem C2_counterexample:
  "gitCheckoutOK mergeFails
   \<and> run_nextCmd mergeFails threeInstances ''sonnet-2'' =
       Some ([IncrementChoice ''github-copilot'' ''sonnet-2'',
              GitAdd ''/home/dev'' ''repo_feature_sonnet-2'',
              GitCommit ''/home/dev'' ''repo_feature_sonnet-2'' (commitMessage threeInstances ''sonnet-2''),
              GitCheckout ''feature'',
              GitMerge ''repo_feature_sonnet-2'' ''sonnet-2'',
              DisplayMessage],
             Some bailCompleteMsg)
   \<and> createdPanes threeInstances = [''%1'', ''%2'', ''%3'']"
proof -
  have w: "insideTmux mergeFails" "getwd mergeFails = Some (''/home/dev'', ''repo'')"
      "gitAddOK mergeFails" "gitCheckoutOK mergeFails" "\<not> gitMergeOK mergeFails"
      "gitCommitOK mergeFails" "incrementChoiceOK mergeFails"
    by (simp_all add: mergeFails_def goodWorld_def)
  have b: "TrimSpace (branch threeInstances) = ''feature''"
    by (simp add: threeInstances_def initialModel_def TrimSpace_def asciiSpace_def space2_def space3_def)
  have s: "stringAt (instanceProvider threeInstances) ''sonnet-2'' = []"
    by (simp add: threeInstances_def initialModel_def stringAt_def)
  have steps: "mergeSteps nextCompleteMsg mergeFails threeInstances ''sonnet-2'' ''repo_feature_sonnet-2'' ''/home/dev''
      = ([GitAdd ''/home/dev'' ''repo_feature_sonnet-2'',
          GitCommit ''/home/dev'' ''repo_feature_sonnet-2'' (commitMessage threeInstances ''sonnet-2''),
          GitCheckout ''feature'',
          GitMerge ''repo_feature_sonnet-2'' ''sonnet-2'',
          DisplayMessage], bailCompleteMsg)"
    using w b by (simp add: mergeSteps_def Let_def)
  have "run_nextCmd mergeFails threeInstances ''sonnet-2'' =
       Some ([IncrementChoice ''github-copilot'' ''sonnet-2'',
              GitAdd ''/home/dev'' ''repo_feature_sonnet-2'',
              GitCommit ''/home/dev'' ''repo_feature_sonnet-2'' (commitMessage threeInstances ''sonnet-2''),
              GitCheckout ''feature'',
              GitMerge ''repo_feature_sonnet-2'' ''sonnet-2'',
              DisplayMessage],
             Some bailCompleteMsg)"
    unfolding run_nextCmd_def mergeCmd_def using w(1,2,7) sample_registered s steps
    by (simp add: Let_def)
  moreover have "createdPanes threeInstances = [''%1'', ''%2'', ''%3'']"
    by (simp add: threeInstances_def)
  ultimately show ?thesis using w(4) by simp
qed

text \<open>
  C1 (what the code does). On the Iteration screen, submitting \<^verbatim>\<open>/next label\<close> for a
  registered label, with every step succeeding, runs the merge and reports
  \<^verbatim>\<open>nextCompleteMsg\<close>, on which \<open>Update\<close> clears the command buffer and moves to the NewTask
  screen, returning no command; submitting \<^verbatim>\<open>/wrap label\<close> reports \<^verbatim>\<open>wrapCompleteMsg\<close>, on
  which \<open>Update\<close> returns \<^verbatim>\<open>tea.Quit\<close>. The two completions are the other way round from
  the README and the specification.
\<close>

theorem C1_next_new_task_wrap_quits:
  assumes "screen m = screenIteration" and "popupClosed m"
    and "TrimSpace arg = label" and "label \<noteq> []"
    and "modelToWorktree m label = Some wt" and "currentProvider m = Some p"
    and "insideTmux w" and "getwd w = Some (dir, base)"
    and "gitAddOK w" and "gitCheckoutOK w" and "gitMergeOK w"
  shows "(currentLine m = ''/next '' @ arg \<longrightarrow>
           (\<exists>m1 effs. Update ks m (KeyMsg enterKey) = Some (m1, Some (nextCmd m1 label))
              \<and> runCmd w (nextCmd m1 label) = Some (effs, Some nextCompleteMsg)
              \<and> Update ks m1 nextCompleteMsg = Some (updateNextComplete m1, None)
              \<and> screen (updateNextComplete m1) = screenNewTask))
       \<and> (currentLine m = ''/wrap '' @ arg \<longrightarrow>
           (\<exists>m1 effs. Update ks m (KeyMsg enterKey) = Some (m1, Some (wrapCmd m1 label))
              \<and> runCmd w (wrapCmd m1 label) = Some (effs, Some wrapCompleteMsg)
              \<and> Update ks m1 wrapCompleteMsg = Some (m1, Some Quit)))"
proof -
  let ?m1 = "m\<lparr>screen := screenProgress, progressMsg := progressText label\<rparr>"
  have reg: "modelToWorktree ?m1 label = Some wt" using assms(5) by simp
  have "currentProvider ?m1 = currentProvider m" by (rule currentProvider_frame) simp_all
  then have cp: "currentProvider ?m1 = Some p" using assms(6) by simp
  have run: "\<exists>effs. mergeCmd final w ?m1 label = Some (effs, Some final)" for final
    using mergeCmd_registered [OF assms(7) reg cp assms(8), of final]
      mergeSteps_merged(1) [OF assms(9,10,11), of final ?m1 label wt dir]
    by auto
  have n: "Update ks ?m1 nextCompleteMsg = Some (updateNextComplete ?m1, None)"
      "screen (updateNextComplete ?m1) = screenNewTask"
    by (simp_all add: Update_def updateNextComplete_def)
  have q: "Update ks ?m1 wrapCompleteMsg = Some (?m1, Some Quit)"
    by (simp add: Update_def)
  have "currentLine m = ''/next '' @ arg \<longrightarrow>
           (\<exists>m1 effs. Update ks m (KeyMsg enterKey) = Some (m1, Some (nextCmd m1 label))
              \<and> runCmd w (nextCmd m1 label) = Some (effs, Some nextCompleteMsg)
              \<and> Update ks m1 nextCompleteMsg = Some (updateNextComplete m1, None)
              \<and> screen (updateNextComplete m1) = screenNewTask)"
  proof
    assume l: "currentLine m = ''/next '' @ arg"
    obtain effs where e: "runCmd w (nextCmd ?m1 label) = Some (effs, Some nextCompleteMsg)"
      using run [of nextCompleteMsg] by (auto simp: run_nextCmd_def)
    show "\<exists>m1 effs. Update ks m (KeyMsg enterKey) = Some (m1, Some (nextCmd m1 label))
              \<and> runCmd w (nextCmd m1 label) = Some (effs, Some nextCompleteMsg)
              \<and> Update ks m1 nextCompleteMsg = Some (updateNextComplete m1, None)
              \<and> screen (updateNextComplete m1) = screenNewTask"
      by (intro exI [of _ ?m1] exI [of _ effs] conjI;
          (rule enter_next [OF assms(1,2) l assms(3,4)] e n))
  qed
  moreover have "currentLine m = ''/wrap '' @ arg \<longrightarrow>
           (\<exists>m1 effs. Update ks m (KeyMsg enterKey) = Some (m1, Some (wrapCmd m1 label))
              \<and> runCmd w (wrapCmd m1 label) = Some (effs, Some wrapCompleteMsg)
              \<and> Update ks m1 wrapCompleteMsg = Some (m1, Some Quit))"
  proof
    assume l: "currentLine m = ''/wrap '' @ arg"
    obtain effs where e: "runCmd w (wrapCmd ?m1 label) = Some (effs, Some wrapCompleteMsg)"
      using run [of wrapCompleteMsg] by (auto simp: run_wrapCmd_def)
    show "\<exists>m1 effs. Update ks m (KeyMsg enterKey) = Some (m1, Some (wrapCmd m1 label))
              \<and> runCmd w (wrapCmd m1 label) = Some (effs, Some wrapCompleteMsg)
              \<and> Update ks m1 wrapCompleteMsg = Some (m1, Some Quit)"
      by (intro exI [of _ ?m1] exI [of _ effs] conjI;
          (rule enter_wrap [OF assms(1,2) l assms(3,4)] e q))
  qed
  ultimately show ?thesis by (rule conjI)
qed

lemma sample_command_registered:
  "modelToWorktree (commandSession line) ''sonnet-2'' = Some ''repo_feature_sonnet-2''"
  "currentProvider (commandSession line) = Some ''github-copilot''"
  by (simp_all add: commandSession_def threeInstances_def initialModel_def currentProvider_def)

theorem C1_next_new_task_wrap_quits_witness:
  "(\<exists>m1 effs.
      Update [] (commandSession ''/next sonnet-2'') (KeyMsg enterKey) = Some (m1, Some (nextCmd m1 ''sonnet-2''))
      \<and> runCmd goodWorld (nextCmd m1 ''sonnet-2'') = Some (effs, Some nextCompleteMsg)
      \<and> Update [] m1 nextCompleteMsg = Some (updateNextComplete m1, None)
      \<and> screen (updateNextComplete m1) = screenNewTask)
   \<and> (\<exists>m1 effs.
      Update [] (commandSession ''/wrap sonnet-2'') (KeyMsg enterKey) = Some (m1, Some (wrapCmd m1 ''sonnet-2''))
      \<and> runCmd goodWorld (wrapCmd m1 ''sonnet-2'') = Some (effs, Some wrapCompleteMsg)
      \<and> Update [] m1 wrapCompleteMsg = Some (m1, Some Quit))"
proof -
  have w: "insideTmux goodWorld" "getwd goodWorld = Some (''/home/dev'', ''repo'')"
      "gitAddOK goodWorld" "gitCheckoutOK goodWorld" "gitMergeOK goodWorld"
    by (simp_all add: goodWorld_def)
  have n: "''sonnet-2'' \<noteq> []" by simp
  note a = C1_next_new_task_wrap_quits [OF sample_session sample_trim(2) n
      sample_command_registered w, of _ "[]"]
  have "\<exists>m1 effs.
      Update [] (commandSession ''/next sonnet-2'') (KeyMsg enterKey) = Some (m1, Some (nextCmd m1 ''sonnet-2''))
      \<and> runCmd goodWorld (nextCmd m1 ''sonnet-2'') = Some (effs, Some nextCompleteMsg)
      \<and> Update [] m1 nextCompleteMsg = Some (updateNextComplete m1, None)
      \<and> screen (updateNextComplete m1) = screenNewTask"
    using a [of "''/next sonnet-2''"] sample_line(2) by blast
  moreover have "\<exists>m1 effs.
      Update [] (commandSession ''/wrap sonnet-2'') (KeyMsg enterKey) = Some (m1, Some (wrapCmd m1 ''sonnet-2''))
      \<and> runCmd goodWorld (wrapCmd m1 ''sonnet-2'') = Some (effs, Some wrapCompleteMsg)
      \<and> Update [] m1 wrapCompleteMsg = Some (m1, Some Quit)"
    using a [of "''/wrap sonnet-2''"] sample_line(3) by blast
  ultimately show ?thesis by (rule conjI)
qed

section \<open>Properties of FollowUp\<close>

lemma splitN2_at:
  assumes "CHR '' '' \<notin> set a"
  shows "SplitN2 (a @ '' '' @ b) = [a, b]"
proof -
  have t: "takeWhile (\<lambda>c. c \<noteq> CHR '' '') (a @ CHR '' '' # b) = a"
    using assms by (induction a) auto
  have d: "dropWhile (\<lambda>c. c \<noteq> CHR '' '') (a @ CHR '' '' # b) = CHR '' '' # b"
    using assms by (induction a) auto
  show ?thesis by (simp add: SplitN2_def t d)
qed

lemma followUpTarget_at:
  assumes "currentLine m = ''@'' @ label @ '' '' @ body" and "CHR '' '' \<notin> set label"
  shows "followUpTarget m = map_option (\<lambda>paneID. (paneID, label, body)) (modelToPaneID m label)"
proof -
  have sp: "CHR '' '' \<notin> set (''@'' @ label)" using assms(2) by simp
  have parts: "SplitN2 (currentLine m) = [''@'' @ label, body]"
    using splitN2_at [OF sp, of body] assms(1) by simp
  have hp: "HasPrefix (currentLine m) ''@''"
    unfolding assms(1) by (rule hasPrefix_append)
  have tp: "TrimPrefix (''@'' @ label) ''@'' = label" by (rule trimPrefix_append)
  show ?thesis
    unfolding followUpTarget_def parts using hp tp
    by (cases "modelToPaneID m label") (simp_all add: Let_def)
qed

lemma enter_at:
  assumes "screen m = screenIteration" and "popupClosed m"
    and "currentLine m = ''@'' @ label @ '' '' @ body"
  shows "Update ks m (KeyMsg enterKey) =
           (case followUpTarget m of
              Some (paneID, modelName, prompt) \<Rightarrow> Some (followUp m paneID modelName prompt)
            | None \<Rightarrow> noCmd (setIteration m (insertNewline (iterationInput m, iterationCursor m))))"
proof -
  have nb: "currentLine m \<noteq> ''/bail''" using assms(3) by simp
  have nn: "\<not> HasPrefix (currentLine m) ''/next ''" "\<not> HasPrefix (currentLine m) ''/wrap ''"
    unfolding assms(3) by (simp_all add: HasPrefix_def)
  show ?thesis
    unfolding enter_on_iteration [OF assms(1)] iterationEnter_def popup_closed [OF assms(2)]
    using nb nn by simp
qed

lemma pushed_head:
  assumes "TrimSpace body \<noteq> []"
  shows "hd (pushHistorySlice h body) = TrimSpace body"
  using assms by (cases h) (auto simp: pushHistorySlice_def historyMax_def Let_def)

text \<open>
  C8. On the Iteration screen, submitting \<^verbatim>\<open>@label\<close>, a space and a message: when no
  pane is mapped to the label, no prompt log changes, the history stays as it was and no
  command is issued (Enter only puts a newline into the command buffer); when a pane is
  mapped to it, the message is appended to the prompt log of that label and of no other,
  it is sent to that pane, and it is pushed to the history: unless the message is blank
  or is already the most recent entry, the history becomes the trimmed message followed
  by the earlier entries, cut to 20; the most recent entry is then the trimmed message
  (the message without the blanks in front of it).
\<close>

theorem C8_followup:
  assumes "screen m = screenIteration" and "popupClosed m"
    and "currentLine m = ''@'' @ label @ '' '' @ body" and "CHR '' '' \<notin> set label"
    and "validCursor (iterationInput m) (iterationCursor m)"
  shows "(modelToPaneID m label = None \<longrightarrow>
           (\<exists>m1. Update ks m (KeyMsg enterKey) = Some (m1, None)
              \<and> modelPrompts m1 = modelPrompts m \<and> history m1 = history m
              \<and> screen m1 = screenIteration))
       \<and> (\<forall>paneID. modelToPaneID m label = Some paneID \<longrightarrow>
           (\<exists>m1. Update ks m (KeyMsg enterKey) = Some (m1, Some (sendToModelPaneCmd paneID label body m1))
              \<and> modelPrompts m1 = (modelPrompts m)(label \<mapsto> listAt (modelPrompts m) label @ [body])
              \<and> history m1 =
                  (if TrimSpace body = [] \<or> (history m \<noteq> [] \<and> hd (history m) = TrimSpace body)
                   then history m else take 20 (TrimSpace body # history m))
              \<and> (TrimSpace body \<noteq> [] \<longrightarrow> hd (history m1) = TrimSpace body)
              \<and> (\<forall>ws core. body = ws @ core \<and> (\<forall>c \<in> set ws. blank c) \<and> core \<noteq> []
                    \<and> printable (hd core) \<and> printable (last core)
                   \<longrightarrow> hd (history m1) = core)
              \<and> screen m1 = screenIteration))"
proof (intro conjI allI impI)
  assume un: "modelToPaneID m label = None"
  have t: "followUpTarget m = None"
    using followUpTarget_at [OF assms(3,4)] un by simp
  obtain rows cur where nl: "insertNewline (iterationInput m, iterationCursor m) = Some (rows, cur)"
    using assms(5) by (simp add: insertNewline_def validCursor_def Let_def)
  have "Update ks m (KeyMsg enterKey)
      = Some (m\<lparr>iterationInput := rows, iterationCursor := cur\<rparr>, None)"
    unfolding enter_at [OF assms(1,2,3)] t nl by (simp add: noCmd_def setIteration_def)
  then show "\<exists>m1. Update ks m (KeyMsg enterKey) = Some (m1, None)
              \<and> modelPrompts m1 = modelPrompts m \<and> history m1 = history m
              \<and> screen m1 = screenIteration"
    using assms(1) by simp
next
  fix paneID
  assume reg: "modelToPaneID m label = Some paneID"
  have t: "followUpTarget m = Some (paneID, label, body)"
    using followUpTarget_at [OF assms(3,4)] reg by simp
  let ?m1 = "m\<lparr>modelPrompts := (modelPrompts m)(label \<mapsto> listAt (modelPrompts m) label @ [body]),
               history := pushHistorySlice (history m) body,
               iterationInput := [[]],
               iterationCursor := \<lparr>row = 0, col = 0\<rparr>\<rparr>"
  have u: "Update ks m (KeyMsg enterKey) = Some (?m1, Some (sendToModelPaneCmd paneID label body ?m1))"
    unfolding enter_at [OF assms(1,2,3)] t by (simp add: followUp_def Let_def)
  have p: "modelPrompts ?m1 = (modelPrompts m)(label \<mapsto> listAt (modelPrompts m) label @ [body])"
    by simp
  have h: "history ?m1 =
             (if TrimSpace body = [] \<or> (history m \<noteq> [] \<and> hd (history m) = TrimSpace body)
              then history m else take 20 (TrimSpace body # history m))"
    by (cases "history m") (simp_all add: pushHistorySlice_def historyMax_def Let_def)
  have hh: "TrimSpace body \<noteq> [] \<longrightarrow> hd (history ?m1) = TrimSpace body"
    by (simp add: pushed_head)
  have hc: "\<forall>ws core. body = ws @ core \<and> (\<forall>c \<in> set ws. blank c) \<and> core \<noteq> []
                    \<and> printable (hd core) \<and> printable (last core)
                   \<longrightarrow> hd (history ?m1) = core"
  proof (intro allI impI)
    fix ws core
    assume a: "body = ws @ core \<and> (\<forall>c \<in> set ws. blank c) \<and> core \<noteq> []
                    \<and> printable (hd core) \<and> printable (last core)"
    then have "TrimSpace (ws @ core @ []) = core"
      by (intro TrimSpace_padded) simp_all
    then have "TrimSpace body = core" using a by simp
    then show "hd (history ?m1) = core" using a by (simp add: pushed_head)
  qed
  have s: "screen ?m1 = screenIteration" using assms(1) by simp
  show "\<exists>m1. Update ks m (KeyMsg enterKey) = Some (m1, Some (sendToModelPaneCmd paneID label body m1))
              \<and> modelPrompts m1 = (modelPrompts m)(label \<mapsto> listAt (modelPrompts m) label @ [body])
              \<and> history m1 =
                  (if TrimSpace body = [] \<or> (history m \<noteq> [] \<and> hd (history m) = TrimSpace body)
                   then history m else take 20 (TrimSpace body # history m))
              \<and> (TrimSpace body \<noteq> [] \<longrightarrow> hd (history m1) = TrimSpace body)
              \<and> (\<forall>ws core. body = ws @ core \<and> (\<forall>c \<in> set ws. blank c) \<and> core \<noteq> []
                    \<and> printable (hd core) \<and> printable (last core)
                   \<longrightarrow> hd (history m1) = core)
              \<and> screen m1 = screenIteration"
    by (intro exI [of _ ?m1] conjI; (rule u p h hh hc s))
qed

lemma sample_cursor:
  "validCursor (iterationInput (commandSession line)) (iterationCursor (commandSession line))"
  by (simp add: commandSession_def validCursor_def)

theorem C8_followup_witness:
  "(\<exists>m1. Update [] (commandSession ''@opus try again'') (KeyMsg enterKey) = Some (m1, None)
      \<and> modelPrompts m1 = modelPrompts (commandSession ''@opus try again'')
      \<and> history m1 = history (commandSession ''@opus try again'')
      \<and> screen m1 = screenIteration)
   \<and> (\<exists>m1. Update [] (commandSession ''@gpt  try again'') (KeyMsg enterKey)
          = Some (m1, Some (sendToModelPaneCmd ''%3'' ''gpt'' '' try again'' m1))
      \<and> modelPrompts m1 = [''sonnet'' \<mapsto> [''fix it''], ''sonnet-2'' \<mapsto> [''fix it''],
                             ''gpt'' \<mapsto> [''fix it'', '' try again'']]
      \<and> history m1 = [''try again'']
      \<and> screen m1 = screenIteration)"
proof -
  have sp: "CHR '' '' \<notin> set ''opus''" "CHR '' '' \<notin> set ''gpt''" by simp_all
  have un: "modelToPaneID (commandSession ''@opus try again'') ''opus'' = None"
    by (simp add: commandSession_def threeInstances_def initialModel_def)
  have reg: "modelToPaneID (commandSession ''@gpt  try again'') ''gpt'' = Some ''%3''"
    by (simp add: commandSession_def threeInstances_def)
  have a: "\<exists>m1. Update [] (commandSession ''@opus try again'') (KeyMsg enterKey) = Some (m1, None)
      \<and> modelPrompts m1 = modelPrompts (commandSession ''@opus try again'')
      \<and> history m1 = history (commandSession ''@opus try again'')
      \<and> screen m1 = screenIteration"
    using C8_followup [OF sample_session sample_line(4) sp(1) sample_cursor, of "[]"] un by blast
  obtain m1 where m1:
      "Update [] (commandSession ''@gpt  try again'') (KeyMsg enterKey)
          = Some (m1, Some (sendToModelPaneCmd ''%3'' ''gpt'' '' try again'' m1))"
      "modelPrompts m1 = (modelPrompts (commandSession ''@gpt  try again''))
           (''gpt'' \<mapsto> listAt (modelPrompts (commandSession ''@gpt  try again'')) ''gpt'' @ ['' try again''])"
      "history m1 =
         (if TrimSpace '' try again'' = []
             \<or> (history (commandSession ''@gpt  try again'') \<noteq> []
                \<and> hd (history (commandSession ''@gpt  try again'')) = TrimSpace '' try again'')
          then history (commandSession ''@gpt  try again'')
          else take 20 (TrimSpace '' try again'' # history (commandSession ''@gpt  try again'')))"
      "\<forall>ws core. '' try again'' = ws @ core \<and> (\<forall>c \<in> set ws. blank c) \<and> core \<noteq> []
                    \<and> printable (hd core) \<and> printable (last core)
                   \<longrightarrow> hd (history m1) = core"
      "screen m1 = screenIteration"
    using C8_followup [OF sample_session sample_line(6) sp(2) sample_cursor, of "[]"] reg by blast
  have h0: "history (commandSession ''@gpt  try again'') = []"
    by (simp add: commandSession_def threeInstances_def initialModel_def)
  have hd1: "hd (history m1) = ''try again''"
  proof -
    have "'' try again'' = '' '' @ ''try again'' \<and> (\<forall>c \<in> set '' ''. blank c) \<and> ''try again'' \<noteq> []
            \<and> printable (hd ''try again'') \<and> printable (last ''try again'')"
      by (simp add: blank_def printable_def)
    then show ?thesis using m1(4) by blast
  qed
  have tt: "TrimSpace '' try again'' = ''try again''"
    by (simp add: TrimSpace_def asciiSpace_def space2_def space3_def)
  have "history m1 = [''try again'']"
    unfolding m1(3) h0 tt by simp
  moreover have "modelPrompts m1 = [''sonnet'' \<mapsto> [''fix it''], ''sonnet-2'' \<mapsto> [''fix it''],
                             ''gpt'' \<mapsto> [''fix it'', '' try again'']]"
    unfolding m1(2) by (simp add: commandSession_def threeInstances_def listAt_def)
  ultimately have b: "\<exists>m1. Update [] (commandSession ''@gpt  try again'') (KeyMsg enterKey)
          = Some (m1, Some (sendToModelPaneCmd ''%3'' ''gpt'' '' try again'' m1))
      \<and> modelPrompts m1 = [''sonnet'' \<mapsto> [''fix it''], ''sonnet-2'' \<mapsto> [''fix it''],
                             ''gpt'' \<mapsto> [''fix it'', '' try again'']]
      \<and> history m1 = [''try again'']
      \<and> screen m1 = screenIteration"
    using m1(1,5) by blast
  show ?thesis using a b by (rule conjI)
qed
section \<open>Properties of the launch completion\<close>

lemma registerInstances_ok:
  assumes "i + length names \<le> length (paneIDs p)" and "i + length names \<le> length (worktrees p)"
  shows "\<exists>m1. registerInstances p ip i names m = Some m1
           \<and> screen m1 = screen m
           \<and> createdPanes m1 = createdPanes m
           \<and> dom (modelToPaneID m1) = dom (modelToPaneID m) \<union> set names
           \<and> dom (modelToWorktree m1) = dom (modelToWorktree m) \<union> set names"
  using assms
proof (induction names arbitrary: i m)
  case Nil
  then show ?case by simp
next
  case (Cons a names)
  define m2 where "m2 =
     m\<lparr>modelToPaneID := (modelToPaneID m)(a \<mapsto> paneIDs p ! i),
       modelToWorktree := (modelToWorktree m)(a \<mapsto> worktrees p ! i),
       modelPrompts := (modelPrompts m)(a \<mapsto> [ip]),
       instanceProvider :=
         (if i < length (providersOpened p)
          then (instanceProvider m)(a \<mapsto> providersOpened p ! i)
          else instanceProvider m),
       instanceBaseModel :=
         (if i < length (baseModels p)
          then (instanceBaseModel m)(a \<mapsto> baseModels p ! i)
          else instanceBaseModel m)\<rparr>"
  have step: "registerInstances p ip i (a # names) m = registerInstances p ip (i + 1) names m2"
    unfolding m2_def using Cons.prems by simp
  have b: "i + 1 + length names \<le> length (paneIDs p)" "i + 1 + length names \<le> length (worktrees p)"
    using Cons.prems by simp_all
  obtain m1 where m1: "registerInstances p ip (i + 1) names m2 = Some m1"
      "screen m1 = screen m2"
      "createdPanes m1 = createdPanes m2"
      "dom (modelToPaneID m1) = dom (modelToPaneID m2) \<union> set names"
      "dom (modelToWorktree m1) = dom (modelToWorktree m2) \<union> set names"
    using Cons.IH [OF b, of m2] by blast
  have "screen m2 = screen m" "createdPanes m2 = createdPanes m"
      "dom (modelToPaneID m2) = insert a (dom (modelToPaneID m))"
      "dom (modelToWorktree m2) = insert a (dom (modelToWorktree m))"
    unfolding m2_def by simp_all
  then show ?case unfolding step using m1 by auto
qed

lemma completion_ignored:
  assumes "count r \<le> 0 \<or> err r \<noteq> None"
  shows "Update ks m (PanesOpened r) = Some (m, None)"
  using assms by (auto simp: Update_def updatePanesOpened_def)

lemma completion_registers:
  assumes "count r > 0" and "err r = None"
    and "length (modelNames r) \<le> length (paneIDs r)"
    and "length (modelNames r) \<le> length (worktrees r)"
  shows "\<exists>m1. Update ks m (PanesOpened r) = Some (m1, None)
           \<and> screen m1 = screenIteration
           \<and> createdPanes m1 = createdPanes m @ paneIDs r
           \<and> dom (modelToPaneID m1) = dom (modelToPaneID m) \<union> set (modelNames r)"
proof -
  define ip where "ip = TrimSpace (Join (input m) [CHR 0x0A])"
  define m0 where "m0 = m\<lparr>screen := screenIteration,
                    createdPanes := createdPanes m @ paneIDs r,
                    createdWorktrees := createdWorktrees m @ worktrees r,
                    history := pushHistorySlice (history m) ip\<rparr>"
  obtain m1 where m1: "registerInstances r ip 0 (modelNames r) m0 = Some m1"
      "screen m1 = screen m0"
      "createdPanes m1 = createdPanes m0"
      "dom (modelToPaneID m1) = dom (modelToPaneID m0) \<union> set (modelNames r)"
    using registerInstances_ok [of 0 "modelNames r" r ip m0] assms(3,4) by auto
  have "Update ks m (PanesOpened r) = Some (m1, None)"
    using assms(1,2) m1(1) unfolding ip_def m0_def
    by (simp add: Update_def updatePanesOpened_def Let_def)
  moreover have "screen m0 = screenIteration" "modelToPaneID m0 = modelToPaneID m"
      "createdPanes m0 = createdPanes m @ paneIDs r"
    unfolding m0_def by simp_all
  ultimately show ?thesis using m1(2,3,4) by auto
qed

lemma launch_refused:
  assumes "currentProvider m = Some p" and "TrimSpace (branch m) = []"
  shows "\<exists>effs e. runCmd w (openPanesCmd mods m) = Some (effs, Some (PanesOpened (noPanes (Some e))))
           \<and> (\<forall>x \<in> set effs. x = DisplayMessage \<or> x = SaveDefaults p)"
  using assms by (auto simp: run_openPanesCmd_def Let_def)

lemma insertNewline_split:
  assumes "validCursor rows cur"
  shows "insertNewline (rows, cur) = Some (splitRow rows cur, \<lparr>row = row cur + 1, col = 0\<rparr>)"
proof -
  have r: "row cur < length rows" using assms by (simp add: validCursor_def)
  have t: "take (Suc (row cur)) (rows[row cur := b]) = take (row cur) rows @ [b]" for b
    using r by (simp add: take_Suc_conv_app_nth)
  have d: "drop (Suc (row cur)) (rows[row cur := b]) = drop (Suc (row cur)) rows" for b
    by simp
  show ?thesis
    using assms by (simp add: insertNewline_def validCursor_def Let_def splitRow_def t d)
qed

lemma setup_enter_launches:
  assumes "screen m = screenSetup" and "focus m = focusPrompt"
    and "validCursor (input m) (cursor m)"
    and "selectedModels m = Some mods" and "mods \<noteq> []"
  shows "Update ks m (KeyMsg enterKey) =
           Some (promptNewline m, Some (openPanesCmd mods (promptNewline m)))"
proof -
  have nl: "insertNewline (input m, cursor m)
              = Some (splitRow (input m) (cursor m), \<lparr>row = row (cursor m) + 1, col = 0\<rparr>)"
    using assms(3) by (rule insertNewline_split)
  have "selectedModels (promptNewline m) = selectedModels m"
    unfolding promptNewline_def by (rule selectedModels_frame) simp_all
  then show ?thesis
    using assms(1,2,4,5) nl
    by (simp add: Update_def enterKey_def setupEnter_def setInput_def promptNewline_def)
qed

text \<open>
  C9. What the code does. A launch attempt (Enter on the Setup prompt with at least one
  model selected) with an empty or whitespace-only branch name opens no pane and runs no
  git command; its completion reports count 0 and an error, and leaves the session as
  Enter left it: on the Setup screen, with no instance registered, changed only by the
  newline Enter put into the prompt at the cursor. A launch completion with count 0
  leaves the session unchanged, on the Setup screen with no instance registered. A
  completion with count at least 1 and no error moves to the Iteration screen and
  registers its labels. A completion with count at least 1 and an error, which
  \<^verbatim>\<open>openPanesCmd\<close> sends when some panes opened and another failed, is dropped: the
  session stays as it was, and the panes and worktrees the message lists are recorded
  nowhere.
\<close>

theorem C9_launch_completion:
  "(screen m = screenSetup \<and> focus m = focusPrompt \<and> validCursor (input m) (cursor m)
      \<and> currentProvider m = Some p \<and> selectedModels m = Some mods \<and> mods \<noteq> []
      \<and> TrimSpace (branch m) = []
     \<longrightarrow> (\<exists>effs r.
            Update ks m (KeyMsg enterKey) =
              Some (promptNewline m, Some (openPanesCmd mods (promptNewline m)))
            \<and> runCmd w (openPanesCmd mods (promptNewline m)) = Some (effs, Some (PanesOpened r))
            \<and> (\<forall>x \<in> set effs. x = DisplayMessage \<or> x = SaveDefaults p)
            \<and> count r = 0 \<and> err r \<noteq> None
            \<and> Update ks (promptNewline m) (PanesOpened r) = Some (promptNewline m, None)
            \<and> screen (promptNewline m) = screenSetup
            \<and> modelToPaneID (promptNewline m) = modelToPaneID m
            \<and> createdPanes (promptNewline m) = createdPanes m))
   \<and> (count r0 \<le> 0 \<or> err r0 \<noteq> None \<longrightarrow> Update ks m (PanesOpened r0) = Some (m, None))
   \<and> (count r0 > 0 \<and> err r0 = None
        \<and> length (modelNames r0) \<le> length (paneIDs r0)
        \<and> length (modelNames r0) \<le> length (worktrees r0)
       \<longrightarrow> (\<exists>m1. Update ks m (PanesOpened r0) = Some (m1, None)
              \<and> screen m1 = screenIteration
              \<and> createdPanes m1 = createdPanes m @ paneIDs r0
              \<and> dom (modelToPaneID m1) = dom (modelToPaneID m) \<union> set (modelNames r0)))"
proof (intro conjI impI)
  assume a: "screen m = screenSetup \<and> focus m = focusPrompt \<and> validCursor (input m) (cursor m)
      \<and> currentProvider m = Some p \<and> selectedModels m = Some mods \<and> mods \<noteq> []
      \<and> TrimSpace (branch m) = []"
  let ?m1 = "promptNewline m"
  have u: "Update ks m (KeyMsg enterKey) = Some (?m1, Some (openPanesCmd mods ?m1))"
    using setup_enter_launches [of m mods ks] a by blast
  have "currentProvider ?m1 = currentProvider m"
    unfolding promptNewline_def by (rule currentProvider_frame) simp_all
  then have cp: "currentProvider ?m1 = Some p" using a by simp
  have br: "TrimSpace (branch ?m1) = []" using a by (simp add: promptNewline_def)
  obtain effs e where run: "runCmd w (openPanesCmd mods ?m1) = Some (effs, Some (PanesOpened (noPanes (Some e))))"
      "\<forall>x \<in> set effs. x = DisplayMessage \<or> x = SaveDefaults p"
    using launch_refused [OF cp br] by blast
  have c: "count (noPanes (Some e)) = 0" "err (noPanes (Some e)) \<noteq> None"
    by (simp_all add: noPanes_def)
  have ig: "Update ks ?m1 (PanesOpened (noPanes (Some e))) = Some (?m1, None)"
    by (rule completion_ignored) (simp add: c)
  have s: "screen ?m1 = screenSetup" "modelToPaneID ?m1 = modelToPaneID m"
      "createdPanes ?m1 = createdPanes m"
    using a by (simp_all add: promptNewline_def)
  show "\<exists>effs r.
            Update ks m (KeyMsg enterKey) =
              Some (promptNewline m, Some (openPanesCmd mods (promptNewline m)))
            \<and> runCmd w (openPanesCmd mods (promptNewline m)) = Some (effs, Some (PanesOpened r))
            \<and> (\<forall>x \<in> set effs. x = DisplayMessage \<or> x = SaveDefaults p)
            \<and> count r = 0 \<and> err r \<noteq> None
            \<and> Update ks (promptNewline m) (PanesOpened r) = Some (promptNewline m, None)
            \<and> screen (promptNewline m) = screenSetup
            \<and> modelToPaneID (promptNewline m) = modelToPaneID m
            \<and> createdPanes (promptNewline m) = createdPanes m"
    by (intro exI [of _ effs] exI [of _ "noPanes (Some e)"] conjI; (rule u run c ig s))
next
  assume "count r0 \<le> 0 \<or> err r0 \<noteq> None"
  then show "Update ks m (PanesOpened r0) = Some (m, None)" by (rule completion_ignored)
next
  assume "count r0 > 0 \<and> err r0 = None
        \<and> length (modelNames r0) \<le> length (paneIDs r0)
        \<and> length (modelNames r0) \<le> length (worktrees r0)"
  then show "\<exists>m1. Update ks m (PanesOpened r0) = Some (m1, None)
              \<and> screen m1 = screenIteration
              \<and> createdPanes m1 = createdPanes m @ paneIDs r0
              \<and> dom (modelToPaneID m1) = dom (modelToPaneID m) \<union> set (modelNames r0)"
    using completion_registers [of r0 ks m] by blast
qed

lemma sample_noBranch:
  "screen noBranch = screenSetup" "focus noBranch = focusPrompt"
  "validCursor (input noBranch) (cursor noBranch)"
  "currentProvider noBranch = Some ''P''"
  "selectedModels noBranch = Some [''A'', ''A'', ''B'']"
  "TrimSpace (branch noBranch) = []"
  by (simp_all add: noBranch_def twoModels_def initialModel_def validCursor_def
      currentProvider_def selectedModels_def listAt_def TrimSpace_def asciiSpace_def
      numeral_2_eq_2)

theorem C9_launch_completion_witness:
  "(\<exists>effs r.
      Update [] noBranch (KeyMsg enterKey) =
        Some (promptNewline noBranch, Some (openPanesCmd [''A'', ''A'', ''B''] (promptNewline noBranch)))
      \<and> runCmd goodWorld (openPanesCmd [''A'', ''A'', ''B''] (promptNewline noBranch))
          = Some (effs, Some (PanesOpened r))
      \<and> (\<forall>x \<in> set effs. x = DisplayMessage \<or> x = SaveDefaults ''P'')
      \<and> count r = 0 \<and> err r \<noteq> None
      \<and> Update [] (promptNewline noBranch) (PanesOpened r) = Some (promptNewline noBranch, None)
      \<and> screen (promptNewline noBranch) = screenSetup
      \<and> modelToPaneID (promptNewline noBranch) = modelToPaneID noBranch
      \<and> createdPanes (promptNewline noBranch) = createdPanes noBranch)
   \<and> input (promptNewline noBranch) = [[], []]
   \<and> cursor (promptNewline noBranch) = \<lparr>row = 1, col = 0\<rparr>
   \<and> Update [] twoModels (PanesOpened (noPanes (Some errTmux))) = Some (twoModels, None)
   \<and> (\<exists>m1. Update [] twoModels (PanesOpened oneOpened) = Some (m1, None)
        \<and> screen m1 = screenIteration
        \<and> createdPanes m1 = createdPanes twoModels @ paneIDs oneOpened
        \<and> dom (modelToPaneID m1) = dom (modelToPaneID twoModels) \<union> set (modelNames oneOpened))"
proof -
  have ne: "[''A'', ''A'', ''B''] \<noteq> []" by simp
  have a: "\<exists>effs r.
      Update [] noBranch (KeyMsg enterKey) =
        Some (promptNewline noBranch, Some (openPanesCmd [''A'', ''A'', ''B''] (promptNewline noBranch)))
      \<and> runCmd goodWorld (openPanesCmd [''A'', ''A'', ''B''] (promptNewline noBranch))
          = Some (effs, Some (PanesOpened r))
      \<and> (\<forall>x \<in> set effs. x = DisplayMessage \<or> x = SaveDefaults ''P'')
      \<and> count r = 0 \<and> err r \<noteq> None
      \<and> Update [] (promptNewline noBranch) (PanesOpened r) = Some (promptNewline noBranch, None)
      \<and> screen (promptNewline noBranch) = screenSetup
      \<and> modelToPaneID (promptNewline noBranch) = modelToPaneID noBranch
      \<and> createdPanes (promptNewline noBranch) = createdPanes noBranch"
    using C9_launch_completion [of noBranch "''P''" "[''A'', ''A'', ''B'']" "[]" goodWorld]
      sample_noBranch ne by blast
  have i: "input (promptNewline noBranch) = [[], []]"
      "cursor (promptNewline noBranch) = \<lparr>row = 1, col = 0\<rparr>"
    by (simp_all add: promptNewline_def splitRow_def noBranch_def twoModels_def initialModel_def)
  have z: "count (noPanes (Some errTmux)) \<le> 0 \<or> err (noPanes (Some errTmux)) \<noteq> None"
    by (simp add: noPanes_def)
  have b: "Update [] twoModels (PanesOpened (noPanes (Some errTmux))) = Some (twoModels, None)"
    using C9_launch_completion [of twoModels _ _ "[]" _ "noPanes (Some errTmux)"] z by blast
  have o: "count oneOpened > 0 \<and> err oneOpened = None
        \<and> length (modelNames oneOpened) \<le> length (paneIDs oneOpened)
        \<and> length (modelNames oneOpened) \<le> length (worktrees oneOpened)"
    by (simp add: oneOpened_def)
  have c: "\<exists>m1. Update [] twoModels (PanesOpened oneOpened) = Some (m1, None)
        \<and> screen m1 = screenIteration
        \<and> createdPanes m1 = createdPanes twoModels @ paneIDs oneOpened
        \<and> dom (modelToPaneID m1) = dom (modelToPaneID twoModels) \<union> set (modelNames oneOpened)"
    using C9_launch_completion [of twoModels _ _ "[]" _ oneOpened] o by blast
  show ?thesis using a i b c by (intro conjI)
qed

text \<open>
  The failing launch: of the panes for A, A-2 and B the first fails and the other two
  open. \<^verbatim>\<open>openPanesCmd\<close> goes on after the failure and sends count 2, the two pane ids
  and the error of the failed pane; \<open>Update\<close> drops the message, so the session stays on
  the Setup screen with nothing registered and with no record of the two open panes.
\<close>

theorem C9_counterexample:
  "(\<exists>effs. run_openPanesCmd firstPaneFails [''A'', ''A'', ''B''] twoModels
             = Some (effs, Some (PanesOpened partialCompletion)))
   \<and> count partialCompletion = 2
   \<and> paneIDs partialCompletion = [''%7'', ''%8'']
   \<and> Update [] twoModels (PanesOpened partialCompletion) = Some (twoModels, None)
   \<and> screen twoModels = screenSetup
   \<and> modelToPaneID twoModels = Map.empty
   \<and> createdPanes twoModels = []"
proof -
  have t: "TrimSpace ''feature'' = ''feature''" "TrimSpace [] = []" "TrimSpace ''A'' = ''A''"
      "TrimSpace ''A-2'' = ''A-2''" "TrimSpace ''B'' = ''B''" "TrimSpace ''%7'' = ''%7''"
      "TrimSpace ''%8'' = ''%8''"
    by (simp_all add: TrimSpace_def asciiSpace_def space2_def space3_def)
  have two: "itoa 2 = ''2''" by code_simp
  have cp: "currentProvider twoModels = Some ''P''"
    by (simp add: currentProvider_def twoModels_def initialModel_def)
  have f: "branch twoModels = ''feature''" "task twoModels = []" "\<not> setDefault twoModels"
      "input twoModels = [[]]"
    by (simp_all add: twoModels_def initialModel_def)
  have w: "insideTmux firstPaneFails" "paneQuery firstPaneFails = Some ''%0''"
      "getwd firstPaneFails = Some (''/home/dev'', ''repo'')"
    by (simp_all add: firstPaneFails_def goodWorld_def)
  have sw: "splitWindow firstPaneFails 0 = None" "splitWindow firstPaneFails (Suc 0) = Some ''%7''"
      "splitWindow firstPaneFails (Suc (Suc 0)) = Some ''%8''"
    by (simp_all add: firstPaneFails_def goodWorld_def)
  have id: "identifierFor firstPaneFails twoModels ''A'' = ''repo_feature_A''"
      "identifierFor firstPaneFails twoModels ''A-2'' = ''repo_feature_A-2''"
      "identifierFor firstPaneFails twoModels ''B'' = ''repo_feature_B''"
    by (simp_all add: identifierFor_def w f t)
  have lab: "instanceLabelOf ''A'' (Suc 0) = ''A''" "instanceLabelOf ''A'' (Suc (Suc 0)) = ''A-2''"
      "instanceLabelOf ''B'' (Suc 0) = ''B''"
    using two by (simp_all add: instanceLabelOf_def numeral_2_eq_2)
  have loop: "\<exists>effs. openLoop firstPaneFails twoModels ''feature'' 0 (\<lambda>b. 0) [''A'', ''A'', ''B'']
               (e1, noPanes None) = Some (effs, partialCompletion)" for e1
    unfolding openLoop_step [OF cp]
    by (simp add: sw lab id t noPanes_def partialCompletion_def)
  have "\<exists>effs. run_openPanesCmd firstPaneFails [''A'', ''A'', ''B''] twoModels
             = Some (effs, Some (PanesOpened partialCompletion))"
  proof -
    obtain effs where e: "openLoop firstPaneFails twoModels ''feature'' 0 (\<lambda>b. 0) [''A'', ''A'', ''B'']
               ([GitCheckoutNew ''feature'', GitCheckout ''feature'', QueryPane], noPanes None)
               = Some (effs, partialCompletion)"
      using loop by blast
    show ?thesis
      unfolding run_openPanesCmd_def using f w(1,2) t(1) e by (simp add: Let_def)
  qed
  moreover have "count partialCompletion = 2" "paneIDs partialCompletion = [''%7'', ''%8'']"
    by (simp_all add: partialCompletion_def)
  moreover have "Update [] twoModels (PanesOpened partialCompletion) = Some (twoModels, None)"
    by (rule completion_ignored) (simp add: partialCompletion_def)
  moreover have "screen twoModels = screenSetup" "modelToPaneID twoModels = Map.empty"
      "createdPanes twoModels = []"
    by (simp_all add: twoModels_def initialModel_def)
  ultimately show ?thesis by (intro conjI)
qed

end
